theory Spec2Isabelle
  imports Complex_Main "HOL-Library.AList"
begin

section \<open>Exceptions of the service\<close>

text \<open>
  The service \<^verbatim>\<open>fastapi_jupyter_server.py\<close> signals every failure by raising. An
  exception is a value here: \<open>HTTPException status detail\<close> is FastAPI's exception (a
  subclass of Python's \<open>Exception\<close>), the others are the built-in exceptions the code
  raises or may receive. A \<open>detail\<close> is either a fixed text, the structured dictionary
  built for an interpreter error, or an f-string that renders an exception or another
  detail after a fixed prefix (the rendering of \<open>str(e)\<close> is kept symbolic).
\<close>

datatype exn =
    HTTPException nat detail
  | RuntimeError detail
  | TimeoutError string
  | KeyError string
  | OtherError string
and detail =
    Text string
  | ErrorDetail string string "string list"
  | Fmt string exn
  | FmtDetail string detail

section \<open>The kernel: the external interpreter process and its message channel\<close>

text \<open>
  A message of the iopub channel, by \<open>msg['header']['msg_type']\<close>, with the fields of
  \<open>msg['content']\<close> the code reads. The fields the Jupyter protocol requires are present
  by type; the ones the code reads with \<open>.get(key, default)\<close> are optional, and so is
  the \<open>msg_id\<close> of \<open>msg['parent_header']\<close>, which is an empty dictionary on messages
  that answer no request.
\<close>

datatype message =
    Stream string
  | ExecuteResult "(string \<times> string) list"
  | DisplayData "(string \<times> string) list"
  | Error "string option" "string option" "string list option"
  | Status "nat option" string
  | Other string

text \<open>
  The future of the channel is a timeline: \<open>Arrive d m\<close> is message \<open>m\<close> arriving
  \<open>d\<close> milliseconds after the previous event, \<open>Die d\<close> is the death of the process
  after \<open>d\<close> milliseconds. Time passes only while the service waits on the channel.
  A restart is answered by the next entry of \<open>restarts\<close>: it raises, or it brings up a
  process that is alive or not (\<open>None\<close> is a call that returns, \<open>Some e\<close> one that raises). \<open>executed\<close> is the code submitted so far; the token
  (\<open>msg_id\<close>) of a submission is its position there. \<open>restart_count\<close> counts the calls
  of \<open>restart_kernel\<close>.
\<close>

datatype event = Arrive nat message | Die nat

datatype restart_outcome = RestartRaises exn | Restarted bool

record kernel =
  alive :: bool
  channels :: bool
  iopub :: "event list"
  executed :: "string list"
  restarts :: "restart_outcome list"
  restart_count :: nat

text \<open>\<open>kernel_client.get_iopub_msg(timeout)\<close>: the next message, or \<open>None\<close> for \<open>queue.Empty\<close>.\<close>

definition get_iopub_msg :: "nat \<Rightarrow> kernel \<Rightarrow> message option \<times> kernel" where
  "get_iopub_msg timeout k =
     (case iopub k of
        [] \<Rightarrow> (None, k)
      | Arrive d m # es \<Rightarrow>
          if d \<le> timeout then (Some m, k\<lparr>iopub := es\<rparr>)
          else (None, k\<lparr>iopub := Arrive (d - timeout) m # es\<rparr>)
      | Die d # es \<Rightarrow>
          if d \<le> timeout then (None, k\<lparr>alive := False, iopub := es\<rparr>)
          else (None, k\<lparr>iopub := Die (d - timeout) # es\<rparr>))"

text \<open>\<open>kernel_client.execute(code)\<close>: submits the code and returns its token.\<close>

definition execute :: "string \<Rightarrow> kernel \<Rightarrow> nat \<times> kernel" where
  "execute code k = (length (executed k), k\<lparr>executed := executed k @ [code]\<rparr>)"

text \<open>\<open>kernel_manager.restart_kernel()\<close>; an exhausted script restarts normally.\<close>

definition restart_kernel :: "kernel \<Rightarrow> exn option \<times> kernel" where
  "restart_kernel k =
     (let k1 = k\<lparr>restart_count := Suc (restart_count k)\<rparr> in
      case restarts k of
        [] \<Rightarrow> (None, k1\<lparr>alive := True\<rparr>)
      | RestartRaises e # rs \<Rightarrow> (Some e, k1\<lparr>restarts := rs\<rparr>)
      | Restarted b # rs \<Rightarrow> (None, k1\<lparr>alive := b, restarts := rs\<rparr>))"

lemma get_iopub_msg_shorter:
  "get_iopub_msg t k = (Some m, k') \<Longrightarrow> length (iopub k') < length (iopub k)"
  by (auto simp: get_iopub_msg_def split: list.splits event.splits if_splits)

section \<open>JupyterController\<close>

text \<open>
  The controller once \<open>create_notebook\<close> has set its kernel manager and client: every
  controller of a registered session is one, so the tests \<open>if self.kernel_manager\<close> and
  \<open>if self.kernel_client\<close> of the source hold.
\<close>

record controller =
  folder_path :: string
  notebook_path :: string
  notebook_exists :: bool
  kernel :: kernel
  kernel_ready :: bool

definition is_idle :: "message \<Rightarrow> bool" where
  "is_idle m = (case m of Status p st \<Rightarrow> st = ''idle'' | _ \<Rightarrow> False)"

text \<open>The inner loop of \<open>_wait_for_kernel_ready\<close>: drop messages up to the first idle status.\<close>

function drain_until_idle :: "kernel \<Rightarrow> kernel" where
  "drain_until_idle k =
     (case get_iopub_msg 100 k of
        (None, k') \<Rightarrow> k'
      | (Some m, k') \<Rightarrow> if is_idle m then k' else drain_until_idle k')"
  by pat_completeness auto
termination
  by (relation "measure (\<lambda>k. length (iopub k))") (auto dest: get_iopub_msg_shorter [OF sym])

declare drain_until_idle.simps [simp del]

text \<open>
  \<open>_wait_for_kernel_ready(timeout)\<close>, in milliseconds. \<open>elapsed\<close> is
  \<open>time.time() - start_time\<close>: each round that finds the process not alive sleeps 0.1 s.
\<close>

function wait_for_kernel_ready :: "nat \<Rightarrow> nat \<Rightarrow> controller \<Rightarrow> exn + controller" where
  "wait_for_kernel_ready timeout elapsed c =
     (if kernel_ready c then Inr c
      else if elapsed > timeout then Inl (TimeoutError ''Kernel failed to start within timeout period'')
      else if alive (kernel c) then
        Inr (c\<lparr>kernel := drain_until_idle (snd (execute ''1+1'' (kernel c))), kernel_ready := True\<rparr>)
      else wait_for_kernel_ready timeout (elapsed + 100) c)"
  by pat_completeness auto
termination
  by (relation "measure (\<lambda>(t, e, c). t + 100 - e)") auto

declare wait_for_kernel_ready.simps [simp del]

text \<open>\<open>_clear_output_queue\<close>: drop pending messages until a wait of 0.1 s times out.\<close>

function clear_queue :: "kernel \<Rightarrow> kernel" where
  "clear_queue k =
     (case get_iopub_msg 100 k of
        (None, k') \<Rightarrow> k'
      | (Some m, k') \<Rightarrow> clear_queue k')"
  by pat_completeness auto
termination
  by (relation "measure (\<lambda>k. length (iopub k))") (auto dest: get_iopub_msg_shorter [OF sym])

declare clear_queue.simps [simp del]

definition clear_output_queue :: "controller \<Rightarrow> controller" where
  "clear_output_queue c = c\<lparr>kernel := clear_queue (kernel c)\<rparr>"

subsection \<open>execute_code\<close>

text \<open>
  The body of the \<open>try\<close> in the message loop, for one message: append a text, do
  nothing, leave the loop, or raise.
\<close>

datatype step = Append string | Nothing | Break | Raise exn

definition get_or :: "(string \<times> string) list \<Rightarrow> string \<Rightarrow> string \<Rightarrow> string" where
  "get_or d key dflt = (case map_of d key of None \<Rightarrow> dflt | Some v \<Rightarrow> v)"

definition classify :: "nat \<Rightarrow> message \<Rightarrow> step" where
  "classify msg_id m =
     (case m of
        Stream t \<Rightarrow> Append t
      | ExecuteResult d \<Rightarrow> Append (get_or d ''text/plain'' [])
      | DisplayData d \<Rightarrow>
          if map_of d ''image/png'' \<noteq> None then Append ''[Image data: base64 PNG omitted]''
          else if map_of d ''text/html'' \<noteq> None then Append ''[HTML data omitted]''
          else (let text_data = get_or d ''text/plain'' [] in
                if text_data \<noteq> [] then Append text_data else Nothing)
      | Error en ev tb \<Rightarrow>
          Raise (HTTPException 400
            (ErrorDetail (case en of None \<Rightarrow> ''UnknownError'' | Some x \<Rightarrow> x)
                         (case ev of None \<Rightarrow> ''Unknown error value'' | Some x \<Rightarrow> x)
                         (case tb of None \<Rightarrow> [] | Some x \<Rightarrow> x)))
      | Status p st \<Rightarrow>
          if st = ''idle'' then
            (case p of
               None \<Rightarrow> Raise (KeyError ''msg_id'')
             | Some q \<Rightarrow> if q = msg_id then Break else Nothing)
          else Nothing
      | Other t \<Rightarrow> Nothing)"

text \<open>
  The clause \<open>except Exception as e\<close> of the loop. It receives every exception raised
  in the body of the \<open>try\<close>, the \<open>HTTPException\<close> of an interpreter error included.
\<close>

definition internal_error :: "exn \<Rightarrow> exn" where
  "internal_error e = HTTPException 500 (Fmt ''Internal error processing kernel output: '' e)"

definition kernel_died_during :: exn where
  "kernel_died_during = RuntimeError (Text ''Kernel died during execution. Please restart session.'')"

definition execution_timeout :: exn where
  "execution_timeout = HTTPException 408 (Text ''Code execution timed out waiting for response from kernel.'')"

function execute_code_loop :: "nat \<Rightarrow> string list \<Rightarrow> controller \<Rightarrow> (exn + string list) \<times> controller" where
  "execute_code_loop msg_id outputs c =
     (case get_iopub_msg 20000 (kernel c) of
        (Some m, k') \<Rightarrow>
          (case classify msg_id m of
             Append t \<Rightarrow> execute_code_loop msg_id (outputs @ [t]) (c\<lparr>kernel := k'\<rparr>)
           | Nothing \<Rightarrow> execute_code_loop msg_id outputs (c\<lparr>kernel := k'\<rparr>)
           | Break \<Rightarrow> (Inr outputs, c\<lparr>kernel := k'\<rparr>)
           | Raise e \<Rightarrow> (Inl (internal_error e), c\<lparr>kernel := k'\<rparr>))
      | (None, k') \<Rightarrow>
          if \<not> alive k' then (Inl kernel_died_during, c\<lparr>kernel := k', kernel_ready := False\<rparr>)
          else (Inl execution_timeout, c\<lparr>kernel := k'\<rparr>))"
  by pat_completeness auto
termination
  by (relation "measure (\<lambda>(i, out, c). length (iopub (kernel c)))")
     (auto dest: get_iopub_msg_shorter [OF sym])

declare execute_code_loop.simps [simp del]

text \<open>
  \<open>'\n'.join(outputs).strip()\<close>. A string is a list of code points below 256; the
  white space \<open>str.strip\<close> removes there is 9 to 13, 28 to 32, 133 and 160.
\<close>

fun join :: "string \<Rightarrow> string list \<Rightarrow> string" where
  "join sep [] = []"
| "join sep [x] = x"
| "join sep (x # y # ys) = x @ sep @ join sep (y # ys)"

definition isspace :: "char \<Rightarrow> bool" where
  "isspace ch = (let n = (of_char ch :: nat) in
     (9 \<le> n \<and> n \<le> 13) \<or> (28 \<le> n \<and> n \<le> 32) \<or> n = 133 \<or> n = 160)"

definition strip :: "string \<Rightarrow> string" where
  "strip s = rev (dropWhile isspace (rev (dropWhile isspace s)))"

definition newline :: string where
  "newline = [CHR 0x0A]"

definition execute_code :: "string \<Rightarrow> controller \<Rightarrow> (exn + string) \<times> controller" where
  "execute_code code c =
     (case (if \<not> kernel_ready c then wait_for_kernel_ready 5000 0 c else Inr c) of
        Inl e \<Rightarrow>
          (Inl (RuntimeError (Text ''Kernel not ready. Please wait for initialization or restart session.'')), c)
      | Inr c1 \<Rightarrow>
          if \<not> kernel_ready c1 then
            (Inl (RuntimeError (Text ''Kernel not ready after waiting. Please restart session.'')), c1)
          else if \<not> alive (kernel c1) then
            (Inl (RuntimeError (Text ''Kernel died. Please restart session.'')), c1\<lparr>kernel_ready := False\<rparr>)
          else
            (let c2 = clear_output_queue c1;
                 (msg_id, k3) = execute code (kernel c2)
             in case execute_code_loop msg_id [] (c2\<lparr>kernel := k3\<rparr>) of
                  (Inl e, c4) \<Rightarrow> (Inl e, c4)
                | (Inr outputs, c4) \<Rightarrow>
                    (Inr (if outputs \<noteq> [] then strip (join newline outputs) else []), c4)))"

subsection \<open>reset_kernel and cleanup\<close>

text \<open>
  \<open>cleanup\<close> stops the channels, shuts the kernel down and removes the notebook file;
  it swallows every error of its own.
\<close>

definition cleanup :: "controller \<Rightarrow> controller" where
  "cleanup c = c\<lparr>kernel := (kernel c)\<lparr>channels := False, alive := False\<rparr>, notebook_exists := False\<rparr>"

definition reset_kernel :: "controller \<Rightarrow> exn option \<times> controller" where
  "reset_kernel c =
     (let c1 = c\<lparr>kernel_ready := False\<rparr> in
      case restart_kernel (kernel c1) of
        (Some e, k') \<Rightarrow>
          (Some (RuntimeError (Fmt ''Failed to reset kernel: '' e)), cleanup (c1\<lparr>kernel := k'\<rparr>))
      | (None, k') \<Rightarrow>
          (case wait_for_kernel_ready 30000 0 (c1\<lparr>kernel := k'\<rparr>) of
             Inl e \<Rightarrow>
               (Some (RuntimeError (Fmt ''Failed to reset kernel: '' e)), cleanup (c1\<lparr>kernel := k'\<rparr>))
           | Inr c2 \<Rightarrow> (None, clear_output_queue c2)))"

text \<open>\<open>os.path.join(a, b)\<close> of two parts, on a POSIX system.\<close>

definition path_join :: "string \<Rightarrow> string \<Rightarrow> string" where
  "path_join a b =
     (if b \<noteq> [] \<and> hd b = CHR ''/'' then b
      else if a = [] \<or> last a = CHR ''/'' then a @ b
      else a @ ''/'' @ b)"

text \<open>
  \<open>create_notebook\<close>. \<open>spawn\<close> is what writing the notebook file and
  \<open>start_kernel()\<close> give: an exception, or the started process with its channel.
\<close>

definition create_notebook :: "exn + kernel \<Rightarrow> string \<Rightarrow> string \<Rightarrow> exn + controller" where
  "create_notebook spawn folder notebook_name =
     (case spawn of
        Inl e \<Rightarrow> Inl e
      | Inr k \<Rightarrow>
          (case wait_for_kernel_ready 30000 0
                  \<lparr>folder_path = folder,
                   notebook_path = path_join folder (notebook_name @ ''.ipynb''),
                   notebook_exists = True,
                   kernel = k\<lparr>channels := True\<rparr>,
                   kernel_ready = False\<rparr> of
             Inl e \<Rightarrow> Inl e
           | Inr c \<Rightarrow> Inr (clear_output_queue c)))"

section \<open>The session registry\<close>

record session_info =
  controller :: controller
  created_at :: real
  last_activity :: real

text \<open>
  The dictionary \<open>sessions\<close>, in insertion order. \<open>AList.update\<close> is
  \<open>sessions[key] = value\<close>, \<open>AList.delete\<close> is \<open>del sessions[key]\<close> and
  \<open>sessions.pop(key)\<close>, \<open>map_of\<close> is the lookup.
\<close>

type_synonym registry = "(string \<times> session_info) list"

definition quoted :: "string \<Rightarrow> string" where
  "quoted s = CHR 0x27 # s @ [CHR 0x27]"

definition SESSIONS_FOLDER :: string where
  "SESSIONS_FOLDER = ''/mnt/jupyter_sessions''"

definition setup_imports :: string where
  "setup_imports =
     ''import pandas as pd'' @ newline @ ''import numpy as np'' @ newline @
     ''import matplotlib.pyplot as plt'' @ newline @ ''import os'' @ newline"

definition setup_code :: string where
  "setup_code = newline @ setup_imports @
     ''# Set backend for matplotlib to Agg to avoid GUI issues in non-interactive env'' @ newline @
     ''import matplotlib'' @ newline @ ''matplotlib.use('' @ quoted ''Agg'' @ '')'' @ newline @
     ''print(\"Initial imports (pandas, numpy, matplotlib, os) loaded.\")'' @ newline @ ''        ''"

definition setup_code_after_reset :: string where
  "setup_code_after_reset = newline @ setup_imports @
     ''import matplotlib'' @ newline @ ''matplotlib.use('' @ quoted ''Agg'' @ '')'' @ newline @
     ''print(\"Re-running initial imports after kernel reset.\")'' @ newline @ ''             ''"

definition setup_code_after_timeout :: string where
  "setup_code_after_timeout = newline @ setup_imports @
     ''import matplotlib'' @ newline @ ''matplotlib.use('' @ quoted ''Agg'' @ '')'' @ newline @
     ''print(\"Re-running initial imports after kernel reset.\")'' @ newline @ ''                ''"

definition setup_code_manual_reset :: string where
  "setup_code_manual_reset = newline @ setup_imports @
     ''import matplotlib'' @ newline @ ''matplotlib.use('' @ quoted ''Agg'' @ '')'' @ newline @
     ''print(\"Re-running initial imports after manual reset.\")'' @ newline @ ''        ''"

subsection \<open>_create_session\<close>

definition create_session ::
  "exn + kernel \<Rightarrow> real \<Rightarrow> string \<Rightarrow> registry \<Rightarrow> (exn + session_info) \<times> registry" where
  "create_session spawn now conversation_id sessions =
     (let sessions1 =
            (if map_of sessions conversation_id \<noteq> None then AList.delete conversation_id sessions
             else sessions);
          session_folder = path_join SESSIONS_FOLDER conversation_id
      in case create_notebook spawn session_folder (''notebook_'' @ conversation_id) of
           Inl e \<Rightarrow> (Inl (HTTPException 500 (Fmt ''Failed to create session: '' e)), sessions1)
         | Inr c \<Rightarrow>
             (let session_info = \<lparr>controller = c, created_at = now, last_activity = now\<rparr>;
                  sessions2 = AList.update conversation_id session_info sessions1
              in case execute_code setup_code c of
                   (Inl setup_error, c') \<Rightarrow>
                     (Inl (HTTPException 500 (Fmt ''Failed to create session: ''
                        (HTTPException 500 (Fmt ''Failed to initialize session environment: '' setup_error)))),
                      AList.delete conversation_id sessions2)
                 | (Inr setup_output, c') \<Rightarrow>
                     (Inr (session_info\<lparr>controller := c'\<rparr>),
                      AList.update conversation_id (session_info\<lparr>controller := c'\<rparr>) sessions2)))"

subsection \<open>_install_dependencies\<close>

text \<open>
  What \<open>subprocess.run(["python", "-m", "pip", "install", package_name], timeout=300)\<close>
  gives: a completed process (return code, stdout, stderr), \<open>subprocess.TimeoutExpired\<close>,
  or another exception. The outcome may depend on what was installed before.
\<close>

datatype pip_result = Completed int string string | TimeoutExpired | PipRaised exn

type_synonym pip = "string list \<Rightarrow> string \<Rightarrow> pip_result"

text \<open>\<open>s.split(sep)[0]\<close> for a one-character separator and for \<open>'=='\<close>.\<close>

definition before_char :: "char \<Rightarrow> string \<Rightarrow> string" where
  "before_char ch s = takeWhile (\<lambda>x. x \<noteq> ch) s"

fun before_eqeq :: "string \<Rightarrow> string" where
  "before_eqeq (x # y # r) =
     (if x = CHR ''='' \<and> y = CHR ''='' then [] else x # before_eqeq (y # r))"
| "before_eqeq s = s"

definition import_name_of :: "string \<Rightarrow> string" where
  "import_name_of package_name =
     map (\<lambda>x. if x = CHR ''-'' then CHR ''_'' else x)
       (before_char CHR ''>'' (before_char CHR ''<'' (before_eqeq (before_char CHR ''['' package_name))))"

definition unexpected_install_error :: "string \<Rightarrow> exn \<Rightarrow> exn" where
  "unexpected_install_error package_name e =
     HTTPException 500 (Fmt (''Unexpected error installing dependency '' @ quoted package_name @ '': '') e)"

text \<open>
  One round of the loop, for a non-empty name. The state is the controller of the
  session and the list of the names handed to pip so far, oldest first.
\<close>

definition install_package ::
  "pip \<Rightarrow> string \<Rightarrow> controller \<times> string list \<Rightarrow> exn option \<times> controller \<times> string list" where
  "install_package pip package_name s =
     (case s of (c, installed) \<Rightarrow>
      (case pip installed package_name of
         TimeoutExpired \<Rightarrow>
           (Some (HTTPException 408 (Text (''Package installation timed out for '' @ quoted package_name))),
            c, installed @ [package_name])
       | PipRaised e \<Rightarrow>
           (Some (unexpected_install_error package_name e), c, installed @ [package_name])
       | Completed returncode out err \<Rightarrow>
           if returncode \<noteq> 0 then
             (Some (HTTPException 400 (Text (''Failed to install dependency '' @ quoted package_name @ '': ''
                      @ (if err \<noteq> [] then err else out)))),
              c, installed @ [package_name])
           else
             (case execute_code (''import '' @ import_name_of package_name) c of
                (Inr import_output, c') \<Rightarrow> (None, c', installed @ [package_name])
              | (Inl (HTTPException st d), c') \<Rightarrow>
                  (Some (HTTPException 400 (FmtDetail (''Package '' @ quoted package_name
                           @ '' installed but failed to import in kernel: '') d)),
                   c', installed @ [package_name])
              | (Inl e, c') \<Rightarrow>
                  (Some (unexpected_install_error package_name e), c', installed @ [package_name]))))"

fun install_dependencies ::
  "pip \<Rightarrow> string list \<Rightarrow> controller \<times> string list \<Rightarrow> exn option \<times> controller \<times> string list" where
  "install_dependencies pip [] s = (None, s)"
| "install_dependencies pip (package_name # rest) s =
     (if package_name = [] then install_dependencies pip rest s
      else (case install_package pip package_name s of
              (Some e, s') \<Rightarrow> (Some e, s')
            | (None, s') \<Rightarrow> install_dependencies pip rest s'))"

subsection \<open>get_session\<close>

definition not_found :: "string \<Rightarrow> exn" where
  "not_found conversation_id = HTTPException 404 (Text (''Session '' @ quoted conversation_id
     @ '' not found. Please start a new session or check the ID.''))"

text \<open>
  The body of the two \<open>try\<close> blocks of \<open>get_session\<close> that reset a kernel and run
  the setup code again; each block has its own literal of the setup code.
\<close>

definition reset_and_setup :: "string \<Rightarrow> controller \<Rightarrow> exn option \<times> controller" where
  "reset_and_setup bootstrap c =
     (case reset_kernel c of
        (Some e, c') \<Rightarrow> (Some e, c')
      | (None, c') \<Rightarrow>
          (case execute_code bootstrap c' of
             (Inl e, c'') \<Rightarrow> (Some e, c'')
           | (Inr out, c'') \<Rightarrow> (None, c'')))"

definition get_session :: "real \<Rightarrow> string \<Rightarrow> registry \<Rightarrow> (exn + session_info) \<times> registry" where
  "get_session now conversation_id sessions =
     (case map_of sessions conversation_id of
        None \<Rightarrow> (Inl (not_found conversation_id), sessions)
      | Some s0 \<Rightarrow>
          (let session_info = s0\<lparr>last_activity := now\<rparr>;
               c = controller session_info
           in if \<not> alive (kernel c) then
                (case reset_and_setup setup_code_after_reset (c\<lparr>kernel_ready := False\<rparr>) of
                   (Some reset_error, c') \<Rightarrow>
                     (Inl (HTTPException 500 (Text (''Kernel for session '' @ quoted conversation_id
                        @ '' died and could not be reset. Please start a new session.''))),
                      AList.delete conversation_id sessions)
                 | (None, c') \<Rightarrow>
                     (Inr (session_info\<lparr>controller := c'\<rparr>),
                      AList.update conversation_id (session_info\<lparr>controller := c'\<rparr>) sessions))
              else if \<not> kernel_ready c then
                (case wait_for_kernel_ready 15000 0 c of
                   Inr c' \<Rightarrow>
                     (Inr (session_info\<lparr>controller := c'\<rparr>),
                      AList.update conversation_id (session_info\<lparr>controller := c'\<rparr>) sessions)
                 | Inl timeout_error \<Rightarrow>
                     (case reset_and_setup setup_code_after_timeout c of
                        (Some reset_error, c') \<Rightarrow>
                          (Inl (HTTPException 500 (Text (''Kernel for session '' @ quoted conversation_id
                             @ '' failed to become ready and could not be reset. Please start a new session.''))),
                           AList.delete conversation_id sessions)
                      | (None, c') \<Rightarrow>
                          (Inr (session_info\<lparr>controller := c'\<rparr>),
                           AList.update conversation_id (session_info\<lparr>controller := c'\<rparr>) sessions)))
              else (Inr session_info, AList.update conversation_id session_info sessions)))"

subsection \<open>cleanup_inactive_sessions\<close>

text \<open>
  One cycle of the background task, after its sleep of 300 s. The first loop collects
  the idle keys of the snapshot \<open>session_ids\<close>, the second pops them. The teardown of
  a popped session runs in a task of its own, on a controller the registry no longer
  holds.
\<close>

fun collect_inactive :: "real \<Rightarrow> registry \<Rightarrow> string list \<Rightarrow> string list" where
  "collect_inactive current_time sessions [] = []"
| "collect_inactive current_time sessions (conversation_id # session_ids) =
     (case map_of sessions conversation_id of
        Some session_info \<Rightarrow>
          if current_time - last_activity session_info > 3600
          then conversation_id # collect_inactive current_time sessions session_ids
          else collect_inactive current_time sessions session_ids
      | None \<Rightarrow> collect_inactive current_time sessions session_ids)"

fun pop_all :: "string list \<Rightarrow> registry \<Rightarrow> registry" where
  "pop_all [] sessions = sessions"
| "pop_all (conversation_id # to_remove) sessions =
     (if map_of sessions conversation_id \<noteq> None
      then pop_all to_remove (AList.delete conversation_id sessions)
      else pop_all to_remove sessions)"

definition cleanup_cycle :: "real \<Rightarrow> registry \<Rightarrow> registry" where
  "cleanup_cycle current_time sessions =
     pop_all (collect_inactive current_time sessions (map fst sessions)) sessions"

section \<open>The endpoints\<close>

text \<open>The two \<open>except\<close> clauses of \<open>/reset\<close>.\<close>

definition reset_handler :: "string \<Rightarrow> exn \<Rightarrow> exn" where
  "reset_handler cid e =
     (case e of
        HTTPException st d \<Rightarrow> e
      | _ \<Rightarrow> HTTPException 500 (Fmt (''Failed to reset session '' @ quoted cid @ '': '') e))"

definition reset_session :: "real \<Rightarrow> string \<Rightarrow> registry \<Rightarrow> (exn + string) \<times> registry" where
  "reset_session now cid sessions =
     (case get_session now cid sessions of
        (Inl e, sessions1) \<Rightarrow> (Inl (reset_handler cid e), sessions1)
      | (Inr session_info, sessions1) \<Rightarrow>
          (case reset_kernel (controller session_info) of
             (Some e, c1) \<Rightarrow>
               (Inl (reset_handler cid e),
                AList.update cid (session_info\<lparr>controller := c1\<rparr>) sessions1)
           | (None, c1) \<Rightarrow>
               (case execute_code setup_code_manual_reset c1 of
                  (Inl setup_error, c2) \<Rightarrow>
                    (Inl (HTTPException 500
                       (Fmt ''Kernel reset, but failed to re-initialize environment: '' setup_error)),
                     AList.update cid (session_info\<lparr>controller := c2\<rparr>) sessions1)
                | (Inr reset_output, c2) \<Rightarrow>
                    (Inr (''Kernel for session '' @ quoted cid @ '' reset successful''),
                     AList.update cid (session_info\<lparr>controller := c2\<rparr>) sessions1))))"

definition end_session :: "string \<Rightarrow> registry \<Rightarrow> (exn + string) \<times> registry" where
  "end_session cid sessions =
     (case map_of sessions cid of
        None \<Rightarrow> (Inl (HTTPException 404 (Text (''Session '' @ quoted cid @ '' not found.''))), sessions)
      | Some session_info \<Rightarrow>
          (Inr (''Session '' @ quoted cid @ '' ended successfully and cleanup initiated.''),
           AList.delete cid sessions))"

record run_request =
  conversation_id :: string
  code :: string
  dependencies :: "string list option"

text \<open>
  The state of the service: the registry, and the names handed to pip so far. What a
  request meets outside the service is its environment: the outcome of starting a
  kernel, the behaviour of pip, and the clock.
\<close>

record server =
  sessions :: registry
  installed :: "string list"

record env =
  spawn_result :: "exn + kernel"
  pip_run :: pip
  time_now :: real

text \<open>The two \<open>except\<close> clauses of \<open>/run\<close>: an \<open>HTTPException\<close> passes, anything else is a 500.\<close>

definition run_handler :: "exn \<Rightarrow> exn" where
  "run_handler e =
     (case e of
        HTTPException st d \<Rightarrow> e
      | _ \<Rightarrow> HTTPException 500 (Fmt ''An unexpected internal server error occurred: '' e))"

definition run_code_in_session :: "env \<Rightarrow> run_request \<Rightarrow> server \<Rightarrow> (exn + string) \<times> server" where
  "run_code_in_session ev request st =
     (let cid = conversation_id request in
      case (if map_of (sessions st) cid \<noteq> None then get_session (time_now ev) cid (sessions st)
            else create_session (spawn_result ev) (time_now ev) cid (sessions st)) of
        (Inl e, sessions1) \<Rightarrow> (Inl (run_handler e), st\<lparr>sessions := sessions1\<rparr>)
      | (Inr session_info, sessions1) \<Rightarrow>
          (case (case dependencies request of
                   None \<Rightarrow> (None, controller session_info, installed st)
                 | Some deps \<Rightarrow>
                     install_dependencies (pip_run ev) deps (controller session_info, installed st)) of
             (Some e, c1, installed1) \<Rightarrow>
               (Inl (run_handler e),
                \<lparr>sessions = AList.update cid (session_info\<lparr>controller := c1\<rparr>) sessions1,
                 installed = installed1\<rparr>)
           | (None, c1, installed1) \<Rightarrow>
               (case execute_code (code request) c1 of
                  (Inl e, c2) \<Rightarrow>
                    (Inl (run_handler e),
                     \<lparr>sessions = AList.update cid (session_info\<lparr>controller := c2\<rparr>) sessions1,
                      installed = installed1\<rparr>)
                | (Inr output, c2) \<Rightarrow>
                    (Inr output,
                     \<lparr>sessions = AList.update cid (session_info\<lparr>controller := c2\<rparr>) sessions1,
                      installed = installed1\<rparr>))))"

section \<open>Notions for stating the properties\<close>

text \<open>
  A message continues the loop of \<open>execute_code\<close> when its round appends a text or does
  nothing; \<open>appended\<close> is the texts a list of messages appends, in order. \<open>arrivals\<close>
  turns delays and messages into events, \<open>in_time\<close> says that each of them arrives within
  the 20 s of its wait and continues the loop. \<open>with_iopub c es\<close> is the controller
  \<open>c\<close> with \<open>es\<close> left on its channel.
\<close>

definition continues :: "nat \<Rightarrow> message \<Rightarrow> bool" where
  "continues msg_id m = (case classify msg_id m of Append t \<Rightarrow> True | Nothing \<Rightarrow> True | _ \<Rightarrow> False)"

definition appended :: "nat \<Rightarrow> message list \<Rightarrow> string list" where
  "appended msg_id ms = concat (map (\<lambda>m. case classify msg_id m of Append t \<Rightarrow> [t] | _ \<Rightarrow> []) ms)"

definition arrivals :: "(nat \<times> message) list \<Rightarrow> event list" where
  "arrivals pre = map (\<lambda>(d, m). Arrive d m) pre"

definition in_time :: "nat \<Rightarrow> (nat \<times> message) list \<Rightarrow> bool" where
  "in_time msg_id pre = list_all (\<lambda>(d, m). d \<le> 20000 \<and> continues msg_id m) pre"

definition with_iopub :: "controller \<Rightarrow> event list \<Rightarrow> controller" where
  "with_iopub c es = c\<lparr>kernel := (kernel c)\<lparr>iopub := es\<rparr>\<rparr>"

text \<open>No message within \<open>t\<close> milliseconds, and the death of the process within them.\<close>

definition silent_for :: "nat \<Rightarrow> event list \<Rightarrow> bool" where
  "silent_for t es = (case es of [] \<Rightarrow> True | Arrive d m # r \<Rightarrow> t < d | Die d # r \<Rightarrow> True)"

definition dies_within :: "nat \<Rightarrow> event list \<Rightarrow> bool" where
  "dies_within t es = (case es of Die d # r \<Rightarrow> d \<le> t | _ \<Rightarrow> False)"

text \<open>
  The output the specification describes: the texts of the stream and result-value
  messages, concatenated in order and trimmed.
\<close>

definition spec_output :: "message list \<Rightarrow> string" where
  "spec_output ms = strip (concat (map (\<lambda>m. case m of Stream t \<Rightarrow> t
       | ExecuteResult d \<Rightarrow> get_or d ''text/plain'' [] | _ \<Rightarrow> []) ms))"

text \<open>The controller and the token once \<open>execute_code\<close> has cleared the queue and submitted.\<close>

definition submit :: "string \<Rightarrow> controller \<Rightarrow> nat \<times> controller" where
  "submit src c =
     (let c2 = clear_output_queue c in
      (fst (execute src (kernel c2)), c2\<lparr>kernel := snd (execute src (kernel c2))\<rparr>))"

text \<open>
  What an error of \<open>_install_dependencies\<close> tells. \<open>reports p e\<close>: the error is one
  of the four the loop raises, with the name \<open>p\<close> in its text. \<open>reported_stage\<close>: the
  stage its text names, \<open>Install\<close> for a failed or timed-out pip, \<open>Import\<close> for
  "installed but failed to import", \<open>Unstated\<close> for "Unexpected error installing
  dependency". \<open>failing_stage\<close>: the stage that fails when the round of \<open>p\<close> fails,
  the import when pip returned 0 and the installation otherwise.
\<close>

datatype stage = Install | Import | Unstated

definition reports :: "string \<Rightarrow> exn \<Rightarrow> bool" where
  "reports p e =
     (case e of
        HTTPException st d \<Rightarrow>
          (case d of
             Text t \<Rightarrow>
               (st = 408 \<and> t = ''Package installation timed out for '' @ quoted p)
               \<or> (st = 400 \<and> take (length (''Failed to install dependency '' @ quoted p @ '': '')) t
                     = ''Failed to install dependency '' @ quoted p @ '': '')
           | FmtDetail pre d' \<Rightarrow>
               st = 400 \<and> pre = ''Package '' @ quoted p @ '' installed but failed to import in kernel: ''
           | Fmt pre x \<Rightarrow>
               st = 500 \<and> pre = ''Unexpected error installing dependency '' @ quoted p @ '': ''
           | _ \<Rightarrow> False)
      | _ \<Rightarrow> False)"

definition reported_stage :: "exn \<Rightarrow> stage" where
  "reported_stage e =
     (case e of
        HTTPException st d \<Rightarrow>
          (case d of Text t \<Rightarrow> Install | FmtDetail pre d' \<Rightarrow> Import | _ \<Rightarrow> Unstated)
      | _ \<Rightarrow> Unstated)"

definition failing_stage :: "pip \<Rightarrow> string \<Rightarrow> controller \<times> string list \<Rightarrow> stage" where
  "failing_stage pf p s =
     (case pf (snd s) p of
        Completed returncode out err \<Rightarrow> if returncode = 0 then Import else Install
      | _ \<Rightarrow> Install)"

text \<open>
  The session a request runs in: the one \<open>run_code_in_session\<close> gets or creates.
  A controller is responsive when its readiness flag is set or its process is dead (a
  dead process is restarted by the next \<open>get_session\<close>).
\<close>

definition acquire :: "env \<Rightarrow> run_request \<Rightarrow> server \<Rightarrow> (exn + session_info) \<times> registry" where
  "acquire ev request st =
     (if map_of (sessions st) (conversation_id request) \<noteq> None
      then get_session (time_now ev) (conversation_id request) (sessions st)
      else create_session (spawn_result ev) (time_now ev) (conversation_id request) (sessions st))"

definition responsive :: "controller \<Rightarrow> bool" where
  "responsive c = (kernel_ready c \<or> \<not> alive (kernel c))"

text \<open>The statement that \<open>_install_dependencies\<close> submits to import the package \<open>p\<close>.\<close>

definition import_of :: "string \<Rightarrow> string" where
  "import_of p = ''import '' @ import_name_of p"

text \<open>The answer of \<open>get_session\<close> when the reset of a dead kernel fails.\<close>

definition could_not_be_reset :: "string \<Rightarrow> exn" where
  "could_not_be_reset cid = HTTPException 500 (Text (''Kernel for session '' @ quoted cid
     @ '' died and could not be reset. Please start a new session.''))"

text \<open>
  The server over time. The registry of the module is empty when the server starts,
  and each request is served on the state that the requests before it left: \<open>/run\<close>,
  \<open>/reset\<close>, \<open>/end_session\<close> and a cycle of the sweep. A conversation id was never
  registered along a history when no state of the history, the last one included,
  holds it. \<open>deps_of\<close>: the names of a request that the installation does not skip.
\<close>

datatype request = Run env run_request | Reset real string | End string | Sweep real

definition serve :: "request \<Rightarrow> server \<Rightarrow> server" where
  "serve r st =
     (case r of
        Run ev rq \<Rightarrow> snd (run_code_in_session ev rq st)
      | Reset t cid \<Rightarrow> st\<lparr>sessions := snd (reset_session t cid (sessions st))\<rparr>
      | End cid \<Rightarrow> st\<lparr>sessions := snd (end_session cid (sessions st))\<rparr>
      | Sweep t \<Rightarrow> st\<lparr>sessions := cleanup_cycle t (sessions st)\<rparr>)"

definition started :: server where
  "started = \<lparr>sessions = [], installed = []\<rparr>"

fun serve_all :: "request list \<Rightarrow> server \<Rightarrow> server" where
  "serve_all [] st = st"
| "serve_all (r # rs) st = serve_all rs (serve r st)"

fun never_registered :: "string \<Rightarrow> request list \<Rightarrow> server \<Rightarrow> bool" where
  "never_registered cid [] st = (map_of (sessions st) cid = None)"
| "never_registered cid (r # rs) st =
     (map_of (sessions st) cid = None \<and> never_registered cid rs (serve r st))"

definition deps_of :: "run_request \<Rightarrow> string list" where
  "deps_of rq = (case dependencies rq of None \<Rightarrow> [] | Some ds \<Rightarrow> filter (\<lambda>p. p \<noteq> []) ds)"


section \<open>Concrete inputs\<close>

text \<open>
  The inputs the witnesses and counterexamples run on: a live kernel with an empty
  channel and nothing submitted, a ready controller on it, the same controller with a
  given future of its channel, and the futures, registries, environments and requests
  of the single cases.
\<close>

definition idle_kernel :: kernel where
  "idle_kernel = \<lparr>alive = True, channels = True, iopub = [], executed = [], restarts = [],
     restart_count = 0\<rparr>"

definition ready_controller :: controller where
  "ready_controller = \<lparr>folder_path = ''/mnt/jupyter_sessions/s1'',
     notebook_path = ''/mnt/jupyter_sessions/s1/notebook_s1.ipynb'', notebook_exists = True,
     kernel = idle_kernel, kernel_ready = True\<rparr>"

definition controller_of :: "event list \<Rightarrow> controller" where
  "controller_of es = with_iopub ready_controller es"

text \<open>The controller once \<open>src\<close> is submitted.\<close>

definition submitted :: "string \<Rightarrow> controller \<Rightarrow> controller" where
  "submitted src c = c\<lparr>kernel := (kernel c)\<lparr>executed := executed (kernel c) @ [src]\<rparr>\<rparr>"

definition two_prints :: "event list" where
  "two_prints = [Arrive 150 (Stream ''a''), Arrive 5 (Stream ''b''), Arrive 5 (Status (Some 0) ''idle'')]"

definition foreign_idle_first :: "event list" where
  "foreign_idle_first = [Arrive 150 (Status (Some 7) ''idle''), Arrive 5 (Stream ''x''),
     Arrive 5 (Status (Some 0) ''idle'')]"

definition name_error :: "event list" where
  "name_error = [Arrive 150 (Status (Some 0) ''busy''),
     Arrive 5 (Error (Some ''NameError'') (Some ''name is not defined'') (Some [''Traceback''])),
     Arrive 5 (Status (Some 0) ''idle'')]"

definition slow_answer :: "event list" where
  "slow_answer = [Arrive 150 (Stream ''x''), Arrive 30000 (Status (Some 0) ''idle'')]"

definition crash :: "event list" where
  "crash = [Arrive 150 (Stream ''x''), Die 3000, Arrive 1000 (Status (Some 2) ''idle'')]"

definition crashed_registry :: registry where
  "crashed_registry = [(''s1'', \<lparr>controller = snd (execute_code ''os.abort()'' (controller_of crash)),
      created_at = 0, last_activity = 0\<rparr>)]"

definition dead_controller :: controller where
  "dead_controller = ready_controller\<lparr>kernel := idle_kernel\<lparr>alive := False,
       iopub := [Arrive 1000 (Status (Some 2) ''idle'')], executed := [''os.abort()'']\<rparr>,
     kernel_ready := False\<rparr>"

definition probed :: controller where
  "probed = ready_controller\<lparr>kernel := idle_kernel\<lparr>restart_count := 1,
     executed := [''os.abort()'', ''1+1'']\<rparr>\<rparr>"

definition recovered :: session_info where
  "recovered = \<lparr>controller = with_iopub (submitted setup_code_after_reset probed) [],
     created_at = 0, last_activity = 10\<rparr>"

definition three_sessions :: registry where
  "three_sessions =
     [(''old'', \<lparr>controller = ready_controller, created_at = 0, last_activity = 0\<rparr>),
      (''edge'', \<lparr>controller = ready_controller, created_at = 0, last_activity = 1400\<rparr>),
      (''new'', \<lparr>controller = ready_controller, created_at = 0, last_activity = 4990\<rparr>)]"

definition ok_pip :: pip where
  "ok_pip installed_before package_name = Completed 0 [] []"

definition answers_at_once :: "event list" where
  "answers_at_once = [Arrive 150 (Status (Some 0) ''idle'')]"

definition picky_pip :: pip where
  "picky_pip installed_before package_name =
     (if package_name = ''nope'' then Completed 1 [] ''No matching distribution found''
      else Completed 0 [] [])"

definition one_session :: server where
  "one_session = \<lparr>sessions = [(''s1'', \<lparr>controller = controller_of answers_at_once,
       created_at = 0, last_activity = 0\<rparr>)], installed = []\<rparr>"

definition fresh_kernel :: kernel where
  "fresh_kernel = \<lparr>alive = True, channels = False,
     iopub = [Arrive 1000 (Status (Some 1) ''idle''), Arrive 1000 (Status (Some 2) ''idle'')],
     executed = [], restarts = [], restart_count = 0\<rparr>"

definition good_env :: env where
  "good_env = \<lparr>spawn_result = Inr fresh_kernel, pip_run = picky_pip, time_now = 1000\<rparr>"

definition no_distribution :: exn where
  "no_distribution = HTTPException 400 (Text (''Failed to install dependency '' @ quoted ''nope'' @ '': ''
          @ ''No matching distribution found''))"

definition nope_request :: run_request where
  "nope_request = \<lparr>conversation_id = ''s1'', code = ''x=1'', dependencies = Some [''nope'', ''six'']\<rparr>"

definition plain_request :: run_request where
  "plain_request = \<lparr>conversation_id = ''s1'', code = ''x=1'', dependencies = None\<rparr>"

definition after_end :: server where
  "after_end = \<lparr>sessions = snd (end_session ''s1'' (sessions one_session)), installed = []\<rparr>"

definition broken_restart :: registry where
  "broken_restart = [(''s1'', \<lparr>controller = ready_controller\<lparr>kernel :=
        idle_kernel\<lparr>restarts := [RestartRaises (OtherError ''cannot start kernel'')]\<rparr>\<rparr>,
      created_at = 0, last_activity = 0\<rparr>)]"

definition no_kernel :: exn where
  "no_kernel = OtherError ''cannot start kernel''"

definition dead_registry :: registry where
  "dead_registry = [(''s1'', \<lparr>controller = ready_controller\<lparr>kernel :=
        idle_kernel\<lparr>alive := False, restarts := [RestartRaises no_kernel]\<rparr>\<rparr>,
      created_at = 0, last_activity = 0\<rparr>)]"

definition missing_pandas :: message where
  "missing_pandas = Error (Some ''ModuleNotFoundError'') (Some ''No module named pandas'') (Some [])"

definition bootstrap_fails :: registry where
  "bootstrap_fails = [(''s1'', \<lparr>controller = controller_of [Arrive 1000 missing_pandas],
      created_at = 0, last_activity = 0\<rparr>)]"

definition restarted :: controller where
  "restarted = ready_controller\<lparr>kernel := idle_kernel\<lparr>restart_count := 1\<rparr>\<rparr>"

definition moody_pip :: pip where
  "moody_pip installed_before package_name =
     (if package_name = ''slow'' then TimeoutExpired
      else if package_name = ''broken'' then PipRaised (OtherError ''No such file or directory: python'')
      else if package_name = ''nope'' then Completed 1 [] ''No matching distribution found''
      else Completed 0 [] [])"

definition import_fails :: "event list" where
  "import_fails = [Arrive 150 missing_pandas]"

definition no_pandas :: detail where
  "no_pandas = Fmt ''Internal error processing kernel output: ''
     (HTTPException 400 (ErrorDetail ''ModuleNotFoundError'' ''No module named pandas'' []))"

definition bad_env :: env where
  "bad_env = \<lparr>spawn_result = Inl no_kernel, pip_run = ok_pip, time_now = 1000\<rparr>"

definition quiet_history :: "request list" where
  "quiet_history = [Sweep 5000, End ''s2'', Reset 7 ''s2'']"

section \<open>The message loop, step by step\<close>

lemma with_iopub_simps [simp]:
  "iopub (kernel (with_iopub c es)) = es"
  "with_iopub (with_iopub c es) es' = with_iopub c es'"
  "kernel_ready (with_iopub c es) = kernel_ready c"
  "alive (kernel (with_iopub c es)) = alive (kernel c)"
  by (simp_all add: with_iopub_def)

lemma loop_arrive:
  assumes "iopub (kernel c) = Arrive d m # es" "d \<le> 20000"
  shows "execute_code_loop msg_id outs c =
    (case classify msg_id m of
       Append t \<Rightarrow> execute_code_loop msg_id (outs @ [t]) (with_iopub c es)
     | Nothing \<Rightarrow> execute_code_loop msg_id outs (with_iopub c es)
     | Break \<Rightarrow> (Inr outs, with_iopub c es)
     | Raise e \<Rightarrow> (Inl (internal_error e), with_iopub c es))"
  using assms
  by (subst execute_code_loop.simps) (simp add: get_iopub_msg_def with_iopub_def split: step.splits)

lemma loop_empty:
  assumes "fst (get_iopub_msg 20000 (kernel c)) = None"
  shows "execute_code_loop msg_id outs c =
    (let k' = snd (get_iopub_msg 20000 (kernel c)) in
     if \<not> alive k' then (Inl kernel_died_during, c\<lparr>kernel := k', kernel_ready := False\<rparr>)
     else (Inl execution_timeout, c\<lparr>kernel := k'\<rparr>))"
  using assms
  by (subst execute_code_loop.simps) (cases "get_iopub_msg 20000 (kernel c)", simp add: Let_def)

lemma loop_prefix:
  "in_time msg_id pre \<Longrightarrow> iopub (kernel c) = arrivals pre @ rest \<Longrightarrow>
   execute_code_loop msg_id outs c =
   execute_code_loop msg_id (outs @ appended msg_id (map snd pre)) (with_iopub c rest)"
proof (induction pre arbitrary: c outs)
  case Nil
  then have "with_iopub c rest = c" by (simp add: with_iopub_def arrivals_def)
  then show ?case by (simp add: appended_def)
next
  case (Cons a pre)
  obtain d m where a: "a = (d, m)" by (cases a)
  from Cons.prems a have d: "d \<le> 20000" and cont: "continues msg_id m" and rest: "in_time msg_id pre"
    by (simp_all add: in_time_def)
  from Cons.prems a have io: "iopub (kernel c) = Arrive d m # (arrivals pre @ rest)"
    by (simp add: arrivals_def)
  have io': "iopub (kernel (with_iopub c (arrivals pre @ rest))) = arrivals pre @ rest" by simp
  show ?case
    using cont Cons.IH [OF rest io']
    by (simp add: loop_arrive [OF io d] a continues_def appended_def split: step.splits)
qed

lemma loop_fails_late:
  assumes "iopub (kernel c) = [] \<or> (\<exists>d es. iopub (kernel c) = Die d # es)
     \<or> (\<exists>d m es. iopub (kernel c) = Arrive d m # es \<and> 20000 < d)"
  shows "\<exists>e c'. execute_code_loop msg_id outs c = (Inl e, c')"
proof -
  from assms have "fst (get_iopub_msg 20000 (kernel c)) = None"
    by (auto simp: get_iopub_msg_def)
  then show ?thesis by (simp add: loop_empty Let_def)
qed

lemma loop_success:
  "iopub (kernel c) = evs \<Longrightarrow> execute_code_loop msg_id outs c = (Inr out, c') \<Longrightarrow>
   \<exists>pre d rest. evs = arrivals pre @ Arrive d (Status (Some msg_id) ''idle'') # rest
     \<and> d \<le> 20000 \<and> in_time msg_id pre \<and> out = outs @ appended msg_id (map snd pre)
     \<and> c' = with_iopub c rest"
proof (induction evs arbitrary: c outs)
  case Nil
  then show ?case using loop_fails_late [of c msg_id outs] by auto
next
  case (Cons e es)
  show ?case
  proof (cases e)
    case (Die d)
    then show ?thesis using Cons.prems loop_fails_late [of c msg_id outs] by auto
  next
    case (Arrive d m)
    show ?thesis
    proof (cases "d \<le> 20000")
      case False
      then show ?thesis using Arrive Cons.prems loop_fails_late [of c msg_id outs] by auto
    next
      case True
      from Cons.prems Arrive have io: "iopub (kernel c) = Arrive d m # es" by simp
      have io': "iopub (kernel (with_iopub c es)) = es" by simp
      note step = loop_arrive [OF io True, of msg_id outs]
      show ?thesis
      proof (cases "classify msg_id m")
        case (Append t)
        with step Cons.prems have "execute_code_loop msg_id (outs @ [t]) (with_iopub c es) = (Inr out, c')"
          by simp
        from Cons.IH [OF io' this] obtain pre d' rest where
          *: "es = arrivals pre @ Arrive d' (Status (Some msg_id) ''idle'') # rest" "d' \<le> 20000"
             "in_time msg_id pre" "out = (outs @ [t]) @ appended msg_id (map snd pre)"
             "c' = with_iopub (with_iopub c es) rest"
          by blast
        have "e # es = arrivals ((d, m) # pre) @ Arrive d' (Status (Some msg_id) ''idle'') # rest"
          using * Arrive by (simp add: arrivals_def)
        moreover have "in_time msg_id ((d, m) # pre)"
          using * True Append by (simp add: in_time_def continues_def)
        moreover have "out = outs @ appended msg_id (map snd ((d, m) # pre))"
          using * Append by (simp add: appended_def)
        ultimately show ?thesis using * by (metis with_iopub_simps(2))
      next
        case Nothing
        with step Cons.prems have "execute_code_loop msg_id outs (with_iopub c es) = (Inr out, c')"
          by simp
        from Cons.IH [OF io' this] obtain pre d' rest where
          *: "es = arrivals pre @ Arrive d' (Status (Some msg_id) ''idle'') # rest" "d' \<le> 20000"
             "in_time msg_id pre" "out = outs @ appended msg_id (map snd pre)"
             "c' = with_iopub (with_iopub c es) rest"
          by blast
        have "e # es = arrivals ((d, m) # pre) @ Arrive d' (Status (Some msg_id) ''idle'') # rest"
          using * Arrive by (simp add: arrivals_def)
        moreover have "in_time msg_id ((d, m) # pre)"
          using * True Nothing by (simp add: in_time_def continues_def)
        moreover have "out = outs @ appended msg_id (map snd ((d, m) # pre))"
          using * Nothing by (simp add: appended_def)
        ultimately show ?thesis using * by (metis with_iopub_simps(2))
      next
        case Break
        then have m: "m = Status (Some msg_id) ''idle''"
          by (auto simp: classify_def Let_def split: message.splits if_splits option.splits)
        from step Break Cons.prems have "out = outs" "c' = with_iopub c es" by simp_all
        then have "e # es = arrivals [] @ Arrive d (Status (Some msg_id) ''idle'') # es
            \<and> d \<le> 20000 \<and> in_time msg_id [] \<and> out = outs @ appended msg_id (map snd [])
            \<and> c' = with_iopub c es"
          using m Arrive True by (simp add: arrivals_def in_time_def appended_def)
        then show ?thesis by blast
      next
        case (Raise x)
        with step Cons.prems show ?thesis by simp
      qed
    qed
  qed
qed

lemma get_iopub_msg_keeps:
  "executed (snd (get_iopub_msg t k)) = executed k"
  "restarts (snd (get_iopub_msg t k)) = restarts k"
  "restart_count (snd (get_iopub_msg t k)) = restart_count k"
  "channels (snd (get_iopub_msg t k)) = channels k"
  by (simp_all add: get_iopub_msg_def split: list.splits event.splits)

lemma get_iopub_msg_keeps':
  "get_iopub_msg t k = (r, k') \<Longrightarrow> executed k' = executed k \<and> restarts k' = restarts k
     \<and> restart_count k' = restart_count k \<and> channels k' = channels k"
  using get_iopub_msg_keeps [of t k] by simp

lemma clear_queue_None:
  "fst (get_iopub_msg 100 k) = None \<Longrightarrow> clear_queue k = snd (get_iopub_msg 100 k)"
  by (subst clear_queue.simps) (cases "get_iopub_msg 100 k", simp)

lemma clear_queue_Some:
  "fst (get_iopub_msg 100 k) = Some m \<Longrightarrow> clear_queue k = clear_queue (snd (get_iopub_msg 100 k))"
  by (subst clear_queue.simps) (cases "get_iopub_msg 100 k", simp)

lemma clear_queue_keeps:
  "executed (clear_queue k) = executed k \<and> restarts (clear_queue k) = restarts k
   \<and> restart_count (clear_queue k) = restart_count k \<and> channels (clear_queue k) = channels k"
proof (induction k rule: clear_queue.induct)
  case (1 k)
  show ?case
  proof (cases "fst (get_iopub_msg 100 k)")
    case None
    then show ?thesis by (simp add: clear_queue_None get_iopub_msg_keeps)
  next
    case (Some m)
    with "1.IH" show ?thesis
      by (cases "get_iopub_msg 100 k") (auto simp: clear_queue_Some dest: get_iopub_msg_keeps')
  qed
qed

lemma drain_until_idle_None:
  "fst (get_iopub_msg 100 k) = None \<Longrightarrow> drain_until_idle k = snd (get_iopub_msg 100 k)"
  by (subst drain_until_idle.simps) (cases "get_iopub_msg 100 k", simp)

lemma drain_until_idle_Some:
  "fst (get_iopub_msg 100 k) = Some m \<Longrightarrow> drain_until_idle k =
     (if is_idle m then snd (get_iopub_msg 100 k) else drain_until_idle (snd (get_iopub_msg 100 k)))"
  by (subst drain_until_idle.simps) (cases "get_iopub_msg 100 k", simp)

lemma drain_until_idle_keeps:
  "executed (drain_until_idle k) = executed k \<and> restarts (drain_until_idle k) = restarts k
   \<and> restart_count (drain_until_idle k) = restart_count k \<and> channels (drain_until_idle k) = channels k"
proof (induction k rule: drain_until_idle.induct)
  case (1 k)
  show ?case
  proof (cases "fst (get_iopub_msg 100 k)")
    case None
    then show ?thesis by (simp add: drain_until_idle_None get_iopub_msg_keeps)
  next
    case (Some m)
    with "1.IH" show ?thesis
      by (cases "get_iopub_msg 100 k") (auto simp: drain_until_idle_Some dest: get_iopub_msg_keeps')
  qed
qed

lemma submit_token: "fst (submit src c) = length (executed (kernel c))"
  by (simp add: submit_def Let_def execute_def clear_output_queue_def clear_queue_keeps)

lemma execute_code_ready:
  assumes "kernel_ready c" "alive (kernel c)"
  shows "execute_code src c =
    (case execute_code_loop (fst (submit src c)) [] (snd (submit src c)) of
       (Inl e, c4) \<Rightarrow> (Inl e, c4)
     | (Inr outs, c4) \<Rightarrow> (Inr (if outs \<noteq> [] then strip (join newline outs) else []), c4))"
  using assms
  by (simp add: execute_code_def submit_def Let_def clear_output_queue_def split: prod.splits)

lemma strip_Nil [simp]: "strip [] = []"
  by (simp add: strip_def)

lemma execute_code_success_loop:
  assumes "execute_code src c = (Inr out, c')"
  shows "\<exists>c1 outs. (if kernel_ready c then Inr c else wait_for_kernel_ready 5000 0 c) = Inr c1
     \<and> kernel_ready c1 \<and> alive (kernel c1)
     \<and> execute_code_loop (fst (submit src c1)) [] (snd (submit src c1)) = (Inr outs, c')
     \<and> out = strip (join newline outs)"
  using assms
  by (auto simp: execute_code_def submit_def Let_def clear_output_queue_def
      split: prod.splits sum.splits if_splits)


lemma appended_simps:
  "appended i [] = []"
  "appended i (Stream t # ms) = t # appended i ms"
  "appended i (ExecuteResult d # ms) = get_or d ''text/plain'' [] # appended i ms"
  "appended i (Other ty # ms) = appended i ms"
  "appended i (Status p st # ms) = appended i ms"
  "appended i (Error en ev tb # ms) = appended i ms"
  "appended i (DisplayData d # ms) =
     (if map_of d ''image/png'' \<noteq> None then [''[Image data: base64 PNG omitted]'']
      else if map_of d ''text/html'' \<noteq> None then [''[HTML data omitted]'']
      else if get_or d ''text/plain'' [] \<noteq> [] then [get_or d ''text/plain'' []] else [])
     @ appended i ms"
  by (simp_all add: appended_def classify_def Let_def split: option.splits)

text \<open>
  Claim C2, as the code has it. When \<open>execute_code\<close> returns an output, the channel
  held, after the queue was cleared and the code submitted, messages that each arrived
  within 20 s and continued the loop, then the idle status that carries the token of
  the submission; the output is the texts these messages append (the text of a stream
  message, the \<open>text/plain\<close> value of a result, the placeholder or text of a rich
  display), in arrival order, joined with a newline between two texts, and trimmed of
  surrounding white space. It is empty when no text was appended.
\<close>

theorem execute_code_output_joined:
  assumes "execute_code src c = (Inr out, c')"
  shows "\<exists>c1 pre d rest.
     (if kernel_ready c then Inr c else wait_for_kernel_ready 5000 0 c) = Inr c1
     \<and> iopub (kernel (snd (submit src c1)))
         = arrivals pre @ Arrive d (Status (Some (fst (submit src c1))) ''idle'') # rest
     \<and> d \<le> 20000 \<and> in_time (fst (submit src c1)) pre
     \<and> out = strip (join newline (appended (fst (submit src c1)) (map snd pre)))"
proof -
  from execute_code_success_loop [OF assms] obtain c1 outs where
    c1: "(if kernel_ready c then Inr c else wait_for_kernel_ready 5000 0 c) = Inr c1"
    and run: "execute_code_loop (fst (submit src c1)) [] (snd (submit src c1)) = (Inr outs, c')"
    and out: "out = strip (join newline outs)"
    by blast
  from loop_success [OF refl run] obtain pre d rest where
    "iopub (kernel (snd (submit src c1)))
       = arrivals pre @ Arrive d (Status (Some (fst (submit src c1))) ''idle'') # rest"
    "d \<le> 20000" "in_time (fst (submit src c1)) pre"
    "outs = [] @ appended (fst (submit src c1)) (map snd pre)"
    by blast
  with c1 out show ?thesis by auto
qed

lemma get_iopub_msg_Some:
  "fst (get_iopub_msg t k) = Some m \<Longrightarrow> \<exists>d es. iopub k = Arrive d m # es \<and> d \<le> t"
  by (auto simp: get_iopub_msg_def split: list.splits event.splits if_splits)

lemma loop_keeps_restart_count:
  "iopub (kernel c) = evs \<Longrightarrow>
   restart_count (kernel (snd (execute_code_loop i outs c))) = restart_count (kernel c)"
proof (induction evs arbitrary: c outs)
  case Nil
  then have "fst (get_iopub_msg 20000 (kernel c)) = None" by (simp add: get_iopub_msg_def)
  then show ?case by (simp add: loop_empty Let_def get_iopub_msg_keeps)
next
  case (Cons e es)
  show ?case
  proof (cases "fst (get_iopub_msg 20000 (kernel c))")
    case None
    then show ?thesis by (simp add: loop_empty Let_def get_iopub_msg_keeps)
  next
    case (Some m)
    from get_iopub_msg_Some [OF this] Cons.prems obtain d where
      io: "iopub (kernel c) = Arrive d m # es" and d: "d \<le> 20000" by auto
    have "restart_count (kernel (with_iopub c es)) = restart_count (kernel c)"
      by (simp add: with_iopub_def)
    with Cons.IH [of "with_iopub c es"] show ?thesis
      by (simp add: loop_arrive [OF io d] split: step.splits)
  qed
qed

lemma wait_keeps_restart_count:
  "wait_for_kernel_ready t e c = Inr c' \<Longrightarrow>
   restart_count (kernel c') = restart_count (kernel c) \<and> kernel_ready c'"
proof (induction t e c rule: wait_for_kernel_ready.induct)
  case (1 timeout elapsed c)
  from "1.prems" show ?case
    apply (subst (asm) wait_for_kernel_ready.simps)
    apply (auto simp: execute_def drain_until_idle_keeps split: if_splits dest: "1.IH")
    done
qed

lemma execute_code_keeps_restart_count:
  "restart_count (kernel (snd (execute_code src c))) = restart_count (kernel c)"
proof (cases "if \<not> kernel_ready c then wait_for_kernel_ready 5000 0 c else Inr c")
  case (Inl e)
  then show ?thesis by (simp add: execute_code_def)
next
  case (Inr c1)
  then have c1: "restart_count (kernel c1) = restart_count (kernel c)"
    by (auto split: if_splits dest: wait_keeps_restart_count)
  have "restart_count (kernel (snd (execute_code_loop (fst (submit src c1)) [] (snd (submit src c1)))))
      = restart_count (kernel c1)"
    by (simp add: loop_keeps_restart_count submit_def Let_def execute_def clear_output_queue_def clear_queue_keeps)
  with Inr c1 show ?thesis
    by (auto simp: execute_code_def submit_def Let_def split: prod.splits sum.splits)
qed

lemma reset_kernel_restarts:
  "restart_count (kernel (snd (reset_kernel c))) = Suc (restart_count (kernel c))"
  by (auto simp: reset_kernel_def restart_kernel_def Let_def cleanup_def clear_output_queue_def
      clear_queue_keeps split: list.splits restart_outcome.splits sum.splits
      dest!: wait_keeps_restart_count)

lemma reset_and_setup_restarts:
  "restart_count (kernel (snd (reset_and_setup bootstrap c))) = Suc (restart_count (kernel c))"
proof (cases "reset_kernel c")
  case (Pair r c1)
  then have "restart_count (kernel c1) = Suc (restart_count (kernel c))"
    using reset_kernel_restarts [of c] by simp
  then show ?thesis
    using Pair execute_code_keeps_restart_count [of bootstrap c1]
    by (auto simp: reset_and_setup_def split: option.splits prod.splits sum.splits)
qed

lemma get_session_restarts_dead_kernel:
  assumes "map_of reg cid = Some s" "\<not> alive (kernel (controller s))"
  shows "case get_session t cid reg of
           (Inr s', reg') \<Rightarrow> restart_count (kernel (controller s')) = Suc (restart_count (kernel (controller s)))
              \<and> map_of reg' cid = Some s'
         | (Inl e, reg') \<Rightarrow> map_of reg' cid = None"
proof -
  let ?c = "(controller s)\<lparr>kernel_ready := False\<rparr>"
  have "restart_count (kernel (snd (reset_and_setup setup_code_after_reset ?c)))
      = Suc (restart_count (kernel (controller s)))"
    by (simp add: reset_and_setup_restarts)
  then show ?thesis using assms
    by (cases "reset_and_setup setup_code_after_reset ?c")
       (auto simp: get_session_def Let_def update_conv' delete_conv' split: option.splits)
qed


lemma silent_get:
  assumes "silent_for t (iopub k)"
  shows "fst (get_iopub_msg t k) = None"
    and "alive (snd (get_iopub_msg t k)) = (alive k \<and> \<not> dies_within t (iopub k))"
  using assms
  by (auto simp: silent_for_def dies_within_def get_iopub_msg_def split: list.splits event.splits)

lemma loop_silent:
  assumes "in_time msg_id pre" "iopub (kernel c) = arrivals pre @ rest" "silent_for 20000 rest"
  shows "execute_code_loop msg_id outs c =
    (let k' = snd (get_iopub_msg 20000 (kernel (with_iopub c rest))) in
     if alive (kernel c) \<and> \<not> dies_within 20000 rest
     then (Inl execution_timeout, (with_iopub c rest)\<lparr>kernel := k'\<rparr>)
     else (Inl kernel_died_during, (with_iopub c rest)\<lparr>kernel := k', kernel_ready := False\<rparr>))"
proof -
  have s: "silent_for 20000 (iopub (kernel (with_iopub c rest)))" using assms(3) by simp
  show ?thesis
    unfolding loop_prefix [OF assms(1,2)]
    using silent_get [OF s]
    by (simp add: loop_empty Let_def)
qed

lemma get_session_dead_kernel:
  assumes "map_of reg cid = Some s" "\<not> alive (kernel (controller s))"
  shows "get_session t cid reg =
    (case restart_kernel (kernel (controller s)) of
       (Some x, k1) \<Rightarrow> (Inl (could_not_be_reset cid), AList.delete cid reg)
     | (None, k1) \<Rightarrow>
         (case wait_for_kernel_ready 30000 0 ((controller s)\<lparr>kernel_ready := False, kernel := k1\<rparr>) of
            Inl x \<Rightarrow> (Inl (could_not_be_reset cid), AList.delete cid reg)
          | Inr c2 \<Rightarrow>
              (case execute_code setup_code_after_reset (clear_output_queue c2) of
                 (Inl x, c3) \<Rightarrow> (Inl (could_not_be_reset cid), AList.delete cid reg)
               | (Inr out, c3) \<Rightarrow>
                   (Inr (s\<lparr>last_activity := t, controller := c3\<rparr>),
                    AList.update cid (s\<lparr>last_activity := t, controller := c3\<rparr>) reg))))"
  using assms
  by (auto simp: get_session_def Let_def reset_and_setup_def reset_kernel_def could_not_be_reset_def
      split: option.splits prod.splits sum.splits)

text \<open>
  Claim C6. A ready controller on a live kernel submits the code; the messages
  \<open>pre\<close> arrive in time and continue the loop, and then no message arrives within
  the 20 s of the wait. If the process is alive when the wait ends, the result is the
  408 time-out; if it has died, the result is the \<open>RuntimeError\<close> of a dead kernel,
  the readiness flag of the controller is cleared and its process is not alive. The
  next \<open>get_session\<close> on a registry that holds this controller then restarts the
  kernel: it calls \<open>restart_kernel\<close> on that kernel, probes the restarted kernel and
  runs the setup code on it; when the three succeed it returns the session on the
  restarted kernel, which has one more restart, and registers it, and when one of
  them fails it answers 500 and removes the session.
\<close>

theorem execute_code_no_message_in_time:
  assumes "kernel_ready c" "alive (kernel c)"
    and "in_time (fst (submit src c)) pre"
    and "iopub (kernel (snd (submit src c))) = arrivals pre @ rest"
    and "silent_for 20000 rest"
  shows "(alive (kernel (snd (submit src c))) \<and> \<not> dies_within 20000 rest \<longrightarrow>
            fst (execute_code src c) = Inl execution_timeout)
       \<and> (\<not> alive (kernel (snd (submit src c))) \<or> dies_within 20000 rest \<longrightarrow>
            fst (execute_code src c) = Inl kernel_died_during
          \<and> \<not> kernel_ready (snd (execute_code src c))
          \<and> \<not> alive (kernel (snd (execute_code src c)))
          \<and> (\<forall>reg cid s t. map_of reg cid = Some s \<and> controller s = snd (execute_code src c) \<longrightarrow>
               (case get_session t cid reg of
                  (Inr s', reg') \<Rightarrow>
                     restart_count (kernel (controller s')) = Suc (restart_count (kernel c))
                     \<and> map_of reg' cid = Some s'
                | (Inl e, reg') \<Rightarrow> map_of reg' cid = None)
               \<and> get_session t cid reg =
                  (case restart_kernel (kernel (snd (execute_code src c))) of
                     (Some x, k1) \<Rightarrow> (Inl (could_not_be_reset cid), AList.delete cid reg)
                   | (None, k1) \<Rightarrow>
                       (case wait_for_kernel_ready 30000 0
                               ((snd (execute_code src c))\<lparr>kernel_ready := False, kernel := k1\<rparr>) of
                          Inl x \<Rightarrow> (Inl (could_not_be_reset cid), AList.delete cid reg)
                        | Inr c2 \<Rightarrow>
                            (case execute_code setup_code_after_reset (clear_output_queue c2) of
                               (Inl x, c3) \<Rightarrow> (Inl (could_not_be_reset cid), AList.delete cid reg)
                             | (Inr out, c3) \<Rightarrow>
                                 (Inr (s\<lparr>last_activity := t, controller := c3\<rparr>),
                                  AList.update cid (s\<lparr>last_activity := t, controller := c3\<rparr>) reg))))))"
proof -
  let ?c2 = "snd (submit src c)"
  let ?k = "snd (get_iopub_msg 20000 (kernel (with_iopub ?c2 rest)))"
  note run = execute_code_ready [OF assms(1,2), of src] loop_silent [OF assms(3,4,5), of "[]"]
  have s: "silent_for 20000 (iopub (kernel (with_iopub ?c2 rest)))" using assms(5) by simp
  have timeout: "fst (execute_code src c) = Inl execution_timeout"
    if "alive (kernel ?c2) \<and> \<not> dies_within 20000 rest"
    using that run by (simp add: Let_def)
  have died: "execute_code src c
      = (Inl kernel_died_during, (with_iopub ?c2 rest)\<lparr>kernel := ?k, kernel_ready := False\<rparr>)"
    if "\<not> alive (kernel ?c2) \<or> dies_within 20000 rest"
    using that run by (auto simp: Let_def)
  have dead: "\<not> alive (kernel (snd (execute_code src c)))"
    if d: "\<not> alive (kernel ?c2) \<or> dies_within 20000 rest"
    using died [OF d] silent_get(2) [OF s] d by auto
  have next_access: "(case get_session t cid reg of
        (Inr s', reg') \<Rightarrow>
           restart_count (kernel (controller s')) = Suc (restart_count (kernel c))
           \<and> map_of reg' cid = Some s'
      | (Inl e, reg') \<Rightarrow> map_of reg' cid = None)
      \<and> get_session t cid reg =
          (case restart_kernel (kernel (snd (execute_code src c))) of
             (Some x, k1) \<Rightarrow> (Inl (could_not_be_reset cid), AList.delete cid reg)
           | (None, k1) \<Rightarrow>
               (case wait_for_kernel_ready 30000 0
                       ((snd (execute_code src c))\<lparr>kernel_ready := False, kernel := k1\<rparr>) of
                  Inl x \<Rightarrow> (Inl (could_not_be_reset cid), AList.delete cid reg)
                | Inr c2 \<Rightarrow>
                    (case execute_code setup_code_after_reset (clear_output_queue c2) of
                       (Inl x, c3) \<Rightarrow> (Inl (could_not_be_reset cid), AList.delete cid reg)
                     | (Inr out, c3) \<Rightarrow>
                         (Inr (s\<lparr>last_activity := t, controller := c3\<rparr>),
                          AList.update cid (s\<lparr>last_activity := t, controller := c3\<rparr>) reg))))"
    if d: "\<not> alive (kernel ?c2) \<or> dies_within 20000 rest"
      and reg: "map_of reg cid = Some s" "controller s = snd (execute_code src c)"
    for reg cid s t
  proof -
    from dead [OF d] reg(2) have na: "\<not> alive (kernel (controller s))" by simp
    from get_session_restarts_dead_kernel [OF reg(1) na, of t]
    have first: "case get_session t cid reg of
        (Inr s', reg') \<Rightarrow>
           restart_count (kernel (controller s')) = Suc (restart_count (kernel c))
           \<and> map_of reg' cid = Some s'
      | (Inl e, reg') \<Rightarrow> map_of reg' cid = None"
      using reg(2) execute_code_keeps_restart_count [of src c]
      by (auto split: prod.splits sum.splits)
    from first get_session_dead_kernel [OF reg(1) na, of t, unfolded reg(2)]
    show ?thesis by (rule conjI)
  qed
  show ?thesis
  proof (intro conjI impI allI)
    assume "alive (kernel ?c2) \<and> \<not> dies_within 20000 rest"
    then show "fst (execute_code src c) = Inl execution_timeout" by (rule timeout)
  next
    assume d: "\<not> alive (kernel ?c2) \<or> dies_within 20000 rest"
    from died [OF d] show "fst (execute_code src c) = Inl kernel_died_during" by simp
  next
    assume d: "\<not> alive (kernel ?c2) \<or> dies_within 20000 rest"
    from died [OF d] show "\<not> kernel_ready (snd (execute_code src c))" by simp
  next
    assume d: "\<not> alive (kernel ?c2) \<or> dies_within 20000 rest"
    then show "\<not> alive (kernel (snd (execute_code src c)))" by (rule dead)
  next
    fix reg :: registry and cid :: string and s :: session_info and t :: real
    assume d: "\<not> alive (kernel ?c2) \<or> dies_within 20000 rest"
      and r: "map_of reg cid = Some s \<and> controller s = snd (execute_code src c)"
    from r have r1: "map_of reg cid = Some s" and r2: "controller s = snd (execute_code src c)"
      by simp_all
    from next_access [OF d r1 r2, of t, THEN conjunct1]
    show "case get_session t cid reg of
        (Inr s', reg') \<Rightarrow>
           restart_count (kernel (controller s')) = Suc (restart_count (kernel c))
           \<and> map_of reg' cid = Some s'
      | (Inl e, reg') \<Rightarrow> map_of reg' cid = None" .
  next
    fix reg :: registry and cid :: string and s :: session_info and t :: real
    assume d: "\<not> alive (kernel ?c2) \<or> dies_within 20000 rest"
      and r: "map_of reg cid = Some s \<and> controller s = snd (execute_code src c)"
    from r have r1: "map_of reg cid = Some s" and r2: "controller s = snd (execute_code src c)"
      by simp_all
    from next_access [OF d r1 r2, of t, THEN conjunct2]
    show "get_session t cid reg =
          (case restart_kernel (kernel (snd (execute_code src c))) of
             (Some x, k1) \<Rightarrow> (Inl (could_not_be_reset cid), AList.delete cid reg)
           | (None, k1) \<Rightarrow>
               (case wait_for_kernel_ready 30000 0
                       ((snd (execute_code src c))\<lparr>kernel_ready := False, kernel := k1\<rparr>) of
                  Inl x \<Rightarrow> (Inl (could_not_be_reset cid), AList.delete cid reg)
                | Inr c2 \<Rightarrow>
                    (case execute_code setup_code_after_reset (clear_output_queue c2) of
                       (Inl x, c3) \<Rightarrow> (Inl (could_not_be_reset cid), AList.delete cid reg)
                     | (Inr out, c3) \<Rightarrow>
                         (Inr (s\<lparr>last_activity := t, controller := c3\<rparr>),
                          AList.update cid (s\<lparr>last_activity := t, controller := c3\<rparr>) reg))))" .
  qed
qed

lemma with_iopub_more [simp]:
  "executed (kernel (with_iopub c es)) = executed (kernel c)"
  "restart_count (kernel (with_iopub c es)) = restart_count (kernel c)"
  "with_iopub c (iopub (kernel c)) = c"
  by (simp_all add: with_iopub_def)

lemma submitted_simps [simp]:
  "submitted src (with_iopub c es) = with_iopub (submitted src c) es"
  "kernel_ready (submitted src c) = kernel_ready c"
  "alive (kernel (submitted src c)) = alive (kernel c)"
  "executed (kernel (submitted src c)) = executed (kernel c) @ [src]"
  by (simp_all add: submitted_def with_iopub_def)

lemma ready_controller_simps [simp]:
  "kernel_ready ready_controller" "alive (kernel ready_controller)"
  "executed (kernel ready_controller) = []" "iopub (kernel ready_controller) = []"
  by (simp_all add: ready_controller_def idle_kernel_def)

lemma loop_step:
  "d \<le> 20000 \<Longrightarrow> execute_code_loop msg_id outs (with_iopub c (Arrive d m # es)) =
    (case classify msg_id m of
       Append t \<Rightarrow> execute_code_loop msg_id (outs @ [t]) (with_iopub c es)
     | Nothing \<Rightarrow> execute_code_loop msg_id outs (with_iopub c es)
     | Break \<Rightarrow> (Inr outs, with_iopub c es)
     | Raise e \<Rightarrow> (Inl (internal_error e), with_iopub c es))"
  using loop_arrive [of "with_iopub c (Arrive d m # es)" d m es msg_id outs]
  by (simp split: step.splits)

lemma loop_die:
  "d \<le> 20000 \<Longrightarrow> execute_code_loop msg_id outs (with_iopub c (Die d # es)) =
     (Inl kernel_died_during,
      c\<lparr>kernel := (kernel c)\<lparr>alive := False, iopub := es\<rparr>, kernel_ready := False\<rparr>)"
  by (subst execute_code_loop.simps) (simp add: get_iopub_msg_def with_iopub_def)

lemma clear_step:
  "clear_output_queue (with_iopub c []) = with_iopub c []"
  "d \<le> 100 \<Longrightarrow> clear_output_queue (with_iopub c (Arrive d m # es)) = clear_output_queue (with_iopub c es)"
  "100 < d \<Longrightarrow> clear_output_queue (with_iopub c (Arrive d m # es)) = with_iopub c (Arrive (d - 100) m # es)"
  "100 < d \<Longrightarrow> clear_output_queue (with_iopub c (Die d # es)) = with_iopub c (Die (d - 100) # es)"
  by (simp_all add: clear_output_queue_def with_iopub_def clear_queue_None clear_queue_Some get_iopub_msg_def)

lemma submit_eq:
  "submit src c = (length (executed (kernel c)), submitted src (clear_output_queue c))"
  by (simp add: submit_def Let_def execute_def submitted_def clear_output_queue_def clear_queue_keeps)

lemma execute_two_prints:
  "fst (execute_code src (controller_of two_prints)) = Inr (''a'' @ newline @ ''b'')"
  by (simp add: execute_code_ready submit_eq controller_of_def two_prints_def clear_step loop_step
       classify_def strip_def isspace_def newline_def)

text \<open>
  Claim C2 at a concrete input: two stream messages \<open>a\<close> and \<open>b\<close>, then the idle
  status of the submission.
\<close>

theorem execute_code_output_joined_witness:
  "fst (execute_code ''print(1)'' (controller_of two_prints)) = Inr (''a'' @ newline @ ''b'')
   \<and> (\<exists>c1 pre d rest.
     (if kernel_ready (controller_of two_prints) then Inr (controller_of two_prints)
      else wait_for_kernel_ready 5000 0 (controller_of two_prints)) = Inr c1
     \<and> iopub (kernel (snd (submit ''print(1)'' c1)))
         = arrivals pre @ Arrive d (Status (Some (fst (submit ''print(1)'' c1))) ''idle'') # rest
     \<and> d \<le> 20000 \<and> in_time (fst (submit ''print(1)'' c1)) pre
     \<and> ''a'' @ newline @ ''b'' = strip (join newline (appended (fst (submit ''print(1)'' c1)) (map snd pre))))"
proof -
  have h: "execute_code ''print(1)'' (controller_of two_prints)
      = (Inr (''a'' @ newline @ ''b''), snd (execute_code ''print(1)'' (controller_of two_prints)))"
    using execute_two_prints [of "''print(1)''"] by (simp add: prod_eq_iff)
  show ?thesis
    using execute_two_prints [of "''print(1)''"] execute_code_output_joined [OF h] by blast
qed

text \<open>
  Claim C2 as stated fails there: the output is \<open>a\<close>, a newline, \<open>b\<close>, and the
  trimmed concatenation of the two texts is \<open>ab\<close>.
\<close>

theorem output_is_not_plain_concatenation:
  "fst (execute_code ''print(1)'' (controller_of two_prints)) = Inr [CHR ''a'', CHR 0x0A, CHR ''b'']
   \<and> spec_output (map (\<lambda>e. case e of Arrive d m \<Rightarrow> m) two_prints) = ''ab''
   \<and> fst (execute_code ''print(1)'' (controller_of two_prints))
       \<noteq> Inr (spec_output (map (\<lambda>e. case e of Arrive d m \<Rightarrow> m) two_prints))"
proof -
  have "spec_output (map (\<lambda>e. case e of Arrive d m \<Rightarrow> m) two_prints) = ''ab''"
    by (simp add: spec_output_def two_prints_def strip_def isspace_def)
  then show ?thesis
    using execute_two_prints [of "''print(1)''"] by (simp add: newline_def)
qed

lemma loop_error:
  assumes "in_time msg_id pre"
    and "iopub (kernel c) = arrivals pre @ Arrive d (Error en ev tb) # rest" and "d \<le> 20000"
  shows "execute_code_loop msg_id outs c =
    (Inl (internal_error (HTTPException 400
       (ErrorDetail (case en of None \<Rightarrow> ''UnknownError'' | Some x \<Rightarrow> x)
                    (case ev of None \<Rightarrow> ''Unknown error value'' | Some x \<Rightarrow> x)
                    (case tb of None \<Rightarrow> [] | Some x \<Rightarrow> x)))),
     with_iopub c rest)"
proof -
  have io: "iopub (kernel (with_iopub c (Arrive d (Error en ev tb) # rest))) = Arrive d (Error en ev tb) # rest"
    by simp
  show ?thesis
    unfolding loop_prefix [OF assms(1,2)]
    by (simp add: loop_arrive [OF io assms(3)] classify_def)
qed

text \<open>
  Claim C4. The loop returns its outputs only at an idle status whose parent token is
  \<open>msg_id\<close>, reached through messages that arrived in time and continued the loop;
  an idle status with another token is skipped and the loop goes on with the rest of
  the channel; an idle status with \<open>msg_id\<close> ends the loop with the outputs so far;
  and \<open>execute_code\<close> runs the loop with the token that \<open>execute\<close> returned for
  the submitted code.
\<close>

theorem idle_status_of_own_token_ends_loop:
  "(execute_code_loop msg_id outs c = (Inr out, c') \<longrightarrow>
      (\<exists>pre d rest. iopub (kernel c) = arrivals pre @ Arrive d (Status (Some msg_id) ''idle'') # rest
         \<and> d \<le> 20000 \<and> in_time msg_id pre \<and> c' = with_iopub c rest))
   \<and> (iopub (kernel c) = Arrive d (Status (Some p) ''idle'') # es \<and> d \<le> 20000 \<and> p \<noteq> msg_id \<longrightarrow>
        execute_code_loop msg_id outs c = execute_code_loop msg_id outs (with_iopub c es))
   \<and> (iopub (kernel c) = Arrive d (Status (Some msg_id) ''idle'') # es \<and> d \<le> 20000 \<longrightarrow>
        execute_code_loop msg_id outs c = (Inr outs, with_iopub c es))
   \<and> (kernel_ready c \<and> alive (kernel c) \<and> execute_code src c = (Inr answer, c'') \<longrightarrow>
        (\<exists>outs'. execute_code_loop (fst (execute src (kernel (clear_output_queue c)))) []
                    (snd (submit src c)) = (Inr outs', c'')))"
proof (intro conjI impI)
  assume "execute_code_loop msg_id outs c = (Inr out, c')"
  from loop_success [OF refl this]
  show "\<exists>pre d rest. iopub (kernel c) = arrivals pre @ Arrive d (Status (Some msg_id) ''idle'') # rest
         \<and> d \<le> 20000 \<and> in_time msg_id pre \<and> c' = with_iopub c rest"
    by blast
next
  assume "iopub (kernel c) = Arrive d (Status (Some p) ''idle'') # es \<and> d \<le> 20000 \<and> p \<noteq> msg_id"
  then show "execute_code_loop msg_id outs c = execute_code_loop msg_id outs (with_iopub c es)"
    by (simp add: loop_arrive classify_def)
next
  assume "iopub (kernel c) = Arrive d (Status (Some msg_id) ''idle'') # es \<and> d \<le> 20000"
  then show "execute_code_loop msg_id outs c = (Inr outs, with_iopub c es)"
    by (simp add: loop_arrive classify_def)
next
  assume a: "kernel_ready c \<and> alive (kernel c) \<and> execute_code src c = (Inr answer, c'')"
  then show "\<exists>outs'. execute_code_loop (fst (execute src (kernel (clear_output_queue c)))) []
                    (snd (submit src c)) = (Inr outs', c'')"
    using execute_code_ready [of c src]
    by (auto simp: submit_def Let_def split: prod.splits sum.splits)
qed


text \<open>
  Claim C4 at a concrete input: an idle status with token 7 comes first, then a stream
  message, then the idle status with token 0 of the submission.
\<close>

theorem idle_status_of_own_token_ends_loop_witness:
  "execute_code_loop 0 [] (controller_of foreign_idle_first)
     = (Inr [''x''], with_iopub (controller_of foreign_idle_first) [])
   \<and> (\<exists>pre d rest. iopub (kernel (controller_of foreign_idle_first))
          = arrivals pre @ Arrive d (Status (Some 0) ''idle'') # rest
         \<and> d \<le> 20000 \<and> in_time 0 pre
         \<and> with_iopub (controller_of foreign_idle_first) [] = with_iopub (controller_of foreign_idle_first) rest)
   \<and> execute_code_loop 0 [] (controller_of foreign_idle_first)
       = execute_code_loop 0 [] (with_iopub (controller_of foreign_idle_first)
           [Arrive 5 (Stream ''x''), Arrive 5 (Status (Some 0) ''idle'')])
   \<and> execute_code_loop 0 [''x''] (controller_of [Arrive 5 (Status (Some 0) ''idle'')])
       = (Inr [''x''], with_iopub (controller_of [Arrive 5 (Status (Some 0) ''idle'')]) [])
   \<and> fst (execute_code ''x=1'' (controller_of foreign_idle_first)) = Inr ''x''
   \<and> (\<exists>outs'. execute_code_loop
          (fst (execute ''x=1'' (kernel (clear_output_queue (controller_of foreign_idle_first))))) []
          (snd (submit ''x=1'' (controller_of foreign_idle_first)))
        = (Inr outs', snd (execute_code ''x=1'' (controller_of foreign_idle_first))))"
proof -
  let ?c = "controller_of foreign_idle_first"
  let ?c3 = "controller_of [Arrive 5 (Status (Some 0) ''idle'')]"
  have run: "execute_code_loop 0 [] ?c = (Inr [''x''], with_iopub ?c [])"
    by (simp add: foreign_idle_first_def controller_of_def loop_step classify_def)
  have head: "iopub (kernel ?c) = Arrive 150 (Status (Some 7) ''idle'')
        # [Arrive 5 (Stream ''x''), Arrive 5 (Status (Some 0) ''idle'')] \<and> (150::nat) \<le> 20000 \<and> (7::nat) \<noteq> 0"
    by (simp add: foreign_idle_first_def controller_of_def)
  have own: "iopub (kernel ?c3) = Arrive 5 (Status (Some 0) ''idle'') # [] \<and> (5::nat) \<le> 20000"
    by (simp add: controller_of_def)
  have whole: "kernel_ready ?c \<and> alive (kernel ?c) \<and> execute_code ''x=1'' ?c
       = (Inr ''x'', snd (execute_code ''x=1'' ?c))"
    by (simp add: execute_code_ready submit_eq controller_of_def foreign_idle_first_def clear_step
          loop_step classify_def strip_def isspace_def prod_eq_iff)
  note own_token = idle_status_of_own_token_ends_loop [where msg_id = 0]
  note at_c = own_token [where c = ?c and outs = "[]" and out = "[''x'']"
      and c' = "with_iopub ?c []" and d = 150 and p = 7
      and es = "[Arrive 5 (Stream ''x''), Arrive 5 (Status (Some 0) ''idle'')]"
      and src = "''x=1''" and answer = "''x''" and c'' = "snd (execute_code ''x=1'' ?c)"]
  note at_c3 = own_token [where c = ?c3 and outs = "[''x'']" and d = 5 and es = "[]"]
  have a1: "\<exists>pre d rest. iopub (kernel ?c) = arrivals pre @ Arrive d (Status (Some 0) ''idle'') # rest
         \<and> d \<le> 20000 \<and> in_time 0 pre \<and> with_iopub ?c [] = with_iopub ?c rest"
    using at_c [THEN conjunct1] run by (rule mp)
  have a2: "execute_code_loop 0 [] ?c = execute_code_loop 0 [] (with_iopub ?c
           [Arrive 5 (Stream ''x''), Arrive 5 (Status (Some 0) ''idle'')])"
    using at_c [THEN conjunct2, THEN conjunct1] head by (rule mp)
  have a3: "execute_code_loop 0 [''x''] ?c3 = (Inr [''x''], with_iopub ?c3 [])"
    using at_c3 [THEN conjunct2, THEN conjunct2, THEN conjunct1] own by (rule mp)
  have a4: "\<exists>outs'. execute_code_loop (fst (execute ''x=1'' (kernel (clear_output_queue ?c)))) []
          (snd (submit ''x=1'' ?c)) = (Inr outs', snd (execute_code ''x=1'' ?c))"
    using at_c [THEN conjunct2, THEN conjunct2, THEN conjunct2] whole by (rule mp)
  from whole have a5: "fst (execute_code ''x=1'' ?c) = Inr ''x''" by (metis fst_conv)
  from run a1 a2 a3 a5 a4 show ?thesis by (intro conjI)
qed

text \<open>
  Claim C5 at a concrete input: the kernel answers \<open>print(non_existent_variable)\<close>
  with an error message. The \<open>HTTPException\<close> of status 400 with the structured
  \<open>ename\<close>, \<open>evalue\<close> and \<open>traceback\<close> is raised inside the \<open>try\<close>, caught by
  \<open>except Exception\<close> and replaced by a 500 whose detail is a text; \<open>/run\<close> passes
  that 500 on.
\<close>

theorem interpreter_error_becomes_internal_error:
  "fst (execute_code ''print(non_existent_variable)'' (controller_of name_error))
     = Inl (HTTPException 500 (Fmt ''Internal error processing kernel output: ''
         (HTTPException 400 (ErrorDetail ''NameError'' ''name is not defined'' [''Traceback'']))))
   \<and> run_handler (HTTPException 500 (Fmt ''Internal error processing kernel output: ''
         (HTTPException 400 (ErrorDetail ''NameError'' ''name is not defined'' [''Traceback'']))))
     = HTTPException 500 (Fmt ''Internal error processing kernel output: ''
         (HTTPException 400 (ErrorDetail ''NameError'' ''name is not defined'' [''Traceback''])))"
  by (simp add: execute_code_ready submit_eq controller_of_def name_error_def clear_step
        loop_step classify_def internal_error_def run_handler_def)

lemma crash_leaves_dead_controller:
  "execute_code ''os.abort()'' (controller_of crash) = (Inl kernel_died_during, dead_controller)"
  by (simp add: execute_code_ready submit_eq controller_of_def crash_def clear_step loop_step
        loop_die classify_def)
     (simp add: dead_controller_def submitted_def ready_controller_def idle_kernel_def)

lemma probed_simps [simp]:
  "kernel_ready probed" "alive (kernel probed)"
  "executed (kernel probed) = [''os.abort()'', ''1+1'']"
  by (simp_all add: probed_def ready_controller_def idle_kernel_def)

lemma restart_of_dead_controller:
  "restart_kernel (kernel dead_controller)
     = (None, idle_kernel\<lparr>restart_count := Suc 0, iopub := [Arrive 1000 (Status (Some 2) ''idle'')],
          executed := [''os.abort()'']\<rparr>)"
  by (simp add: restart_kernel_def dead_controller_def ready_controller_def idle_kernel_def)

lemma probe_after_restart:
  "wait_for_kernel_ready 30000 0 (dead_controller\<lparr>kernel_ready := False,
       kernel := idle_kernel\<lparr>restart_count := Suc 0, iopub := [Arrive 1000 (Status (Some 2) ''idle'')],
          executed := [''os.abort()'']\<rparr>\<rparr>)
     = Inr (with_iopub probed [Arrive 900 (Status (Some 2) ''idle'')])"
  by (simp add: wait_for_kernel_ready.simps execute_def drain_until_idle_None get_iopub_msg_def
        with_iopub_def probed_def dead_controller_def ready_controller_def idle_kernel_def)

lemma bootstrap_after_restart:
  "execute_code setup_code_after_reset (clear_output_queue (with_iopub probed [Arrive 900 (Status (Some 2) ''idle'')]))
     = (Inr [], with_iopub (submitted setup_code_after_reset probed) [])"
  by (simp add: execute_code_ready submit_eq clear_step loop_step classify_def)

text \<open>
  Claim C6 at concrete inputs: an answer that is 30 s away on a live kernel; and a
  kernel that dies 3 s into the wait and, once restarted, answers the setup code. The
  registry holds the second under \<open>s1\<close>, and the next \<open>get_session\<close> returns \<open>s1\<close>
  on the restarted kernel, alive and ready, which has run the probe and the setup code.
\<close>

theorem execute_code_no_message_in_time_witness:
  "fst (execute_code ''while True: pass'' (controller_of slow_answer)) = Inl execution_timeout
   \<and> execute_code ''os.abort()'' (controller_of crash) = (Inl kernel_died_during, dead_controller)
   \<and> \<not> kernel_ready dead_controller \<and> \<not> alive (kernel dead_controller)
   \<and> crashed_registry = [(''s1'', \<lparr>controller = dead_controller, created_at = 0, last_activity = 0\<rparr>)]
   \<and> get_session 10 ''s1'' crashed_registry = (Inr recovered, [(''s1'', recovered)])
   \<and> restart_count (kernel (controller recovered)) = Suc (restart_count (kernel (controller_of crash)))
   \<and> alive (kernel (controller recovered)) \<and> kernel_ready (controller recovered)"
proof -
  note slow = execute_code_no_message_in_time [where c = "controller_of slow_answer"
      and src = "''while True: pass''" and pre = "[(50, Stream ''x'')]"
      and rest = "[Arrive 30000 (Status (Some 0) ''idle'')]"]
  have a1: "fst (execute_code ''while True: pass'' (controller_of slow_answer)) = Inl execution_timeout"
    using slow
    by (simp add: submit_eq controller_of_def slow_answer_def clear_step in_time_def continues_def
         classify_def arrivals_def silent_for_def dies_within_def)
  have hyps: "kernel_ready (controller_of crash)" "alive (kernel (controller_of crash))"
    "in_time (fst (submit ''os.abort()'' (controller_of crash))) [(50, Stream ''x'')]"
    "iopub (kernel (snd (submit ''os.abort()'' (controller_of crash))))
       = arrivals [(50, Stream ''x'')] @ [Die 3000, Arrive 1000 (Status (Some 2) ''idle'')]"
    "silent_for 20000 [Die 3000, Arrive 1000 (Status (Some 2) ''idle'')]"
    by (simp_all add: submit_eq controller_of_def crash_def clear_step in_time_def continues_def
         classify_def arrivals_def silent_for_def)
  have dies: "\<not> alive (kernel (snd (submit ''os.abort()'' (controller_of crash))))
      \<or> dies_within 20000 [Die 3000, Arrive 1000 (Status (Some 2) ''idle'')]"
    by (simp add: dies_within_def)
  note dead = execute_code_no_message_in_time [OF hyps, THEN conjunct2, THEN mp, OF dies]
  have after: "snd (execute_code ''os.abort()'' (controller_of crash)) = dead_controller"
    by (simp add: crash_leaves_dead_controller)
  have a2: "execute_code ''os.abort()'' (controller_of crash) = (Inl kernel_died_during, dead_controller)"
    using dead [THEN conjunct1] after by (simp add: prod_eq_iff)
  have a3: "\<not> kernel_ready dead_controller" and a4: "\<not> alive (kernel dead_controller)"
    using dead [THEN conjunct2, THEN conjunct1] dead [THEN conjunct2, THEN conjunct2, THEN conjunct1]
    unfolding after by simp_all
  have reg: "crashed_registry = [(''s1'', \<lparr>controller = dead_controller, created_at = 0, last_activity = 0\<rparr>)]"
    by (simp add: crashed_registry_def after)
  have held: "map_of crashed_registry ''s1''
        = Some \<lparr>controller = dead_controller, created_at = 0, last_activity = 0\<rparr>
      \<and> controller \<lparr>controller = dead_controller, created_at = 0, last_activity = 0\<rparr>
        = snd (execute_code ''os.abort()'' (controller_of crash))"
    by (simp add: reg after)
  note access = dead [THEN conjunct2, THEN conjunct2, THEN conjunct2, rule_format, OF held, of 10,
      THEN conjunct2, unfolded after]
  have a5: "get_session 10 ''s1'' crashed_registry = (Inr recovered, [(''s1'', recovered)])"
    unfolding access
    by (simp add: restart_of_dead_controller probe_after_restart bootstrap_after_restart
          recovered_def reg)
  have a6: "restart_count (kernel (controller recovered)) = Suc (restart_count (kernel (controller_of crash)))"
    and a7: "alive (kernel (controller recovered))" and a8: "kernel_ready (controller recovered)"
    by (simp_all add: recovered_def probed_def controller_of_def ready_controller_def idle_kernel_def
          submitted_def)
  from a1 a2 a3 a4 reg a5 a6 a7 a8 show ?thesis by (intro conjI)
qed

section \<open>The sweep of inactive sessions\<close>

lemma pop_all_map:
  "map_of (pop_all ks reg) cid = (if cid \<in> set ks then None else map_of reg cid)"
  by (induction ks arbitrary: reg) (auto simp: delete_conv')

lemma collect_inactive_set:
  "set (collect_inactive t reg ids)
     = {cid \<in> set ids. \<exists>s. map_of reg cid = Some s \<and> t - last_activity s > 3600}"
  by (induction ids) (auto split: option.splits)

text \<open>
  Claim C7. After one cycle at time \<open>t\<close> a key is registered exactly when it was
  registered with an idle time \<open>t - last_activity\<close> of at most 3600 s, with its session
  unchanged. The second loop removes the keys it is given and passes over a key the
  registry no longer holds; the first loop collects from the snapshot the keys that
  are still registered and idle for more than 3600 s.
\<close>

theorem cleanup_cycle_removes_idle_sessions:
  "map_of (cleanup_cycle t reg) cid =
     (case map_of reg cid of
        None \<Rightarrow> None
      | Some s \<Rightarrow> if t - last_activity s > 3600 then None else Some s)
   \<and> map_of (pop_all ks reg) cid = (if cid \<in> set ks then None else map_of reg cid)
   \<and> set (collect_inactive t reg ids)
       = {k \<in> set ids. \<exists>s. map_of reg k = Some s \<and> t - last_activity s > 3600}"
proof -
  have "cid \<in> set (map fst reg)" if "map_of reg cid = Some s" for s
    using that by (metis map_of_eq_None_iff option.distinct(1) set_map)
  then have "map_of (cleanup_cycle t reg) cid =
     (case map_of reg cid of
        None \<Rightarrow> None
      | Some s \<Rightarrow> if t - last_activity s > 3600 then None else Some s)"
    by (auto simp: cleanup_cycle_def pop_all_map collect_inactive_set split: option.splits)
  then show ?thesis by (simp add: pop_all_map collect_inactive_set)
qed

text \<open>
  Claim C7 at a concrete input: at time 5000 a session idle for 5000 s is removed, one
  idle for exactly 3600 s and one idle for 10 s stay, and the key \<open>gone\<close>, which the
  registry does not hold, is passed over by both loops.
\<close>

theorem cleanup_cycle_removes_idle_sessions_witness:
  "map_of (cleanup_cycle 5000 three_sessions) ''old'' = None
   \<and> map_of (cleanup_cycle 5000 three_sessions) ''edge''
       = Some \<lparr>controller = ready_controller, created_at = 0, last_activity = 1400\<rparr>
   \<and> map_of (cleanup_cycle 5000 three_sessions) ''new''
       = Some \<lparr>controller = ready_controller, created_at = 0, last_activity = 4990\<rparr>
   \<and> map_of (pop_all [''gone'', ''old''] three_sessions) ''edge''
       = Some \<lparr>controller = ready_controller, created_at = 0, last_activity = 1400\<rparr>
   \<and> set (collect_inactive 5000 three_sessions [''gone'', ''old'', ''new'']) = {''old''}"
proof -
  note at = cleanup_cycle_removes_idle_sessions [where t = 5000 and reg = three_sessions]
  have a1: "map_of (cleanup_cycle 5000 three_sessions) ''old'' = None"
    using at [where cid = "''old''", THEN conjunct1] by (simp add: three_sessions_def)
  have a2: "map_of (cleanup_cycle 5000 three_sessions) ''edge''
       = Some \<lparr>controller = ready_controller, created_at = 0, last_activity = 1400\<rparr>"
    using at [where cid = "''edge''", THEN conjunct1] by (simp add: three_sessions_def)
  have a3: "map_of (cleanup_cycle 5000 three_sessions) ''new''
       = Some \<lparr>controller = ready_controller, created_at = 0, last_activity = 4990\<rparr>"
    using at [where cid = "''new''", THEN conjunct1] by (simp add: three_sessions_def)
  have a4: "map_of (pop_all [''gone'', ''old''] three_sessions) ''edge''
       = Some \<lparr>controller = ready_controller, created_at = 0, last_activity = 1400\<rparr>"
    using at [where cid = "''edge''" and ks = "[''gone'', ''old'']", THEN conjunct2, THEN conjunct1]
    by (simp add: three_sessions_def)
  have a5: "set (collect_inactive 5000 three_sessions [''gone'', ''old'', ''new'']) = {''old''}"
    using at [where ids = "[''gone'', ''old'', ''new'']" and cid = "''old''", THEN conjunct2, THEN conjunct2]
    by (auto simp: three_sessions_def)
  from a1 a2 a3 a4 a5 show ?thesis by (intro conjI)
qed

section \<open>Dependency installation\<close>

lemma install_dependencies_filter:
  "install_dependencies pf (filter (\<lambda>p. p \<noteq> []) deps) s = install_dependencies pf deps s"
  by (induction deps arbitrary: s) (auto split: prod.splits option.splits)

lemma install_package_log:
  "snd (snd (install_package pf p (c, inst))) = inst @ [p]"
  by (auto simp: install_package_def split: pip_result.splits prod.splits sum.splits exn.splits)

lemma install_dependencies_log:
  "\<exists>new. snd (snd (install_dependencies pf deps (c, inst))) = inst @ new \<and> [] \<notin> set new
      \<and> set new \<subseteq> set deps"
proof (induction deps arbitrary: c inst)
  case Nil
  then show ?case by simp
next
  case (Cons p deps)
  show ?case
  proof (cases "p = []")
    case True
    with Cons.IH [of c inst] show ?thesis by auto
  next
    case False
    obtain r c1 inst1 where ip: "install_package pf p (c, inst) = (r, c1, inst1)"
      by (cases "install_package pf p (c, inst)") auto
    with install_package_log [of pf p c inst] have inst1: "inst1 = inst @ [p]" by simp
    show ?thesis
    proof (cases r)
      case (Some e)
      with False ip inst1 show ?thesis by (auto intro: exI [of _ "[p]"])
    next
      case None
      from Cons.IH [of c1 inst1] obtain new where
        "snd (snd (install_dependencies pf deps (c1, inst1))) = inst1 @ new" "[] \<notin> set new"
        "set new \<subseteq> set deps" by blast
      with None False ip inst1 show ?thesis by (auto intro: exI [of _ "p # new"])
    qed
  qed
qed

text \<open>
  Claim C10. An empty name at the head of the list changes nothing; installing a list
  is installing its non-empty names; and the names handed to pip by a call are names
  of the list, none of them empty.
\<close>

theorem empty_names_are_skipped:
  "install_dependencies pf ([] # deps) s = install_dependencies pf deps s
   \<and> install_dependencies pf (filter (\<lambda>p. p \<noteq> []) deps) s = install_dependencies pf deps s
   \<and> (\<exists>new. snd (snd (install_dependencies pf deps (c, inst))) = inst @ new \<and> [] \<notin> set new
        \<and> set new \<subseteq> set deps)"
  using install_dependencies_filter [of pf deps s] install_dependencies_log [of pf deps c inst]
  by simp


text \<open>
  Claim C10 at a concrete input: the list of an empty name and \<open>six\<close> hands only
  \<open>six\<close> to pip and submits only \<open>import six\<close>.
\<close>

theorem empty_names_are_skipped_witness:
  "install_dependencies ok_pip [[], ''six''] (controller_of answers_at_once, [])
     = install_dependencies ok_pip [''six''] (controller_of answers_at_once, [])
   \<and> fst (install_dependencies ok_pip [[], ''six''] (controller_of answers_at_once, [])) = None
   \<and> snd (snd (install_dependencies ok_pip [[], ''six''] (controller_of answers_at_once, []))) = [''six'']
   \<and> executed (kernel (fst (snd (install_dependencies ok_pip [[], ''six''] (controller_of answers_at_once, [])))))
       = [''import six'']"
proof -
  have run: "install_dependencies ok_pip [''six''] (controller_of answers_at_once, [])
      = (None, submitted ''import six'' (with_iopub ready_controller []), [''six''])"
    by (simp add: install_package_def ok_pip_def execute_code_ready submit_eq controller_of_def
          answers_at_once_def clear_step loop_step classify_def import_name_of_def before_char_def)
  from empty_names_are_skipped [where pf = ok_pip and deps = "[''six'']"
      and s = "(controller_of answers_at_once, [])", THEN conjunct1]
  have skip: "install_dependencies ok_pip [[], ''six''] (controller_of answers_at_once, [])
     = install_dependencies ok_pip [''six''] (controller_of answers_at_once, [])" .
  show ?thesis unfolding skip run by simp
qed

lemma install_dependencies_append:
  "install_dependencies pf (xs @ ys) s =
     (case install_dependencies pf xs s of
        (Some e, s') \<Rightarrow> (Some e, s')
      | (None, s') \<Rightarrow> install_dependencies pf ys s')"
  by (induction xs arbitrary: s) (auto split: prod.splits option.splits)

lemma install_package_reports:
  assumes "install_package pf p s = (Some e, s')"
  shows "reports p e \<and> (reported_stage e = failing_stage pf p s \<or> reported_stage e = Unstated)"
  using assms
  by (cases s)
     (auto simp: install_package_def reports_def reported_stage_def failing_stage_def
        unexpected_install_error_def
        split: pip_result.splits if_splits prod.splits sum.splits exn.splits)

lemma install_dependencies_first_failure:
  assumes "fst (install_dependencies pf deps s) = Some e"
  shows "\<exists>pre p post s1. deps = pre @ p # post \<and> p \<noteq> []
     \<and> install_dependencies pf pre s = (None, s1)
     \<and> install_package pf p s1 = install_dependencies pf deps s"
  using assms
proof (induction deps arbitrary: s)
  case Nil
  then show ?case by simp
next
  case (Cons q deps)
  show ?case
  proof (cases "q = []")
    case True
    with Cons.prems have "fst (install_dependencies pf deps s) = Some e" by simp
    from Cons.IH [OF this] obtain pre p post s1 where
      *: "deps = pre @ p # post" "p \<noteq> []" "install_dependencies pf pre s = (None, s1)"
         "install_package pf p s1 = install_dependencies pf deps s"
      by blast
    with True have "q # deps = (q # pre) @ p # post \<and> p \<noteq> []
        \<and> install_dependencies pf (q # pre) s = (None, s1)
        \<and> install_package pf p s1 = install_dependencies pf (q # deps) s"
      by simp
    then show ?thesis by blast
  next
    case False
    obtain r s2 where ip: "install_package pf q s = (r, s2)"
      by (cases "install_package pf q s")
    show ?thesis
    proof (cases r)
      case (Some x)
      with False ip have "q # deps = [] @ q # deps \<and> q \<noteq> []
          \<and> install_dependencies pf [] s = (None, s)
          \<and> install_package pf q s = install_dependencies pf (q # deps) s"
        by simp
      then show ?thesis by blast
    next
      case None
      with False ip Cons.prems have "fst (install_dependencies pf deps s2) = Some e" by simp
      from Cons.IH [OF this] obtain pre p post s1 where
        *: "deps = pre @ p # post" "p \<noteq> []" "install_dependencies pf pre s2 = (None, s1)"
           "install_package pf p s1 = install_dependencies pf deps s2"
        by blast
      with None False ip have "q # deps = (q # pre) @ p # post \<and> p \<noteq> []
          \<and> install_dependencies pf (q # pre) s = (None, s1)
          \<and> install_package pf p s1 = install_dependencies pf (q # deps) s"
        by simp
      then show ?thesis by blast
    qed
  qed
qed


lemma wait_fails_dead:
  "wait_for_kernel_ready t e c = Inl x \<Longrightarrow> e \<le> t \<Longrightarrow> \<not> alive (kernel c)"
  by (subst (asm) wait_for_kernel_ready.simps) (auto split: if_splits)

lemma loop_outcome:
  "iopub (kernel c) = evs \<Longrightarrow> kernel_ready c \<Longrightarrow>
   responsive (snd (execute_code_loop i outs c))
   \<and> (case fst (execute_code_loop i outs c) of
        Inl e \<Rightarrow> e = kernel_died_during \<or> e = execution_timeout \<or> (\<exists>x. e = internal_error x)
      | Inr out \<Rightarrow> True)"
proof (induction evs arbitrary: c outs)
  case Nil
  then have "fst (get_iopub_msg 20000 (kernel c)) = None" by (simp add: get_iopub_msg_def)
  with Nil show ?case by (simp add: loop_empty Let_def responsive_def)
next
  case (Cons e es)
  show ?case
  proof (cases "fst (get_iopub_msg 20000 (kernel c))")
    case None
    with Cons.prems show ?thesis by (simp add: loop_empty Let_def responsive_def)
  next
    case (Some m)
    from get_iopub_msg_Some [OF this] Cons.prems obtain d where
      io: "iopub (kernel c) = Arrive d m # es" and d: "d \<le> 20000" by auto
    have "kernel_ready (with_iopub c es)" using Cons.prems by simp
    with Cons.IH [of "with_iopub c es"] Cons.prems show ?thesis
      by (auto simp: loop_arrive [OF io d] responsive_def split: step.splits)
  qed
qed

lemma execute_code_outcome:
  "responsive (snd (execute_code src c))
   \<and> (case fst (execute_code src c) of
        Inl e \<Rightarrow> (\<exists>d. e = RuntimeError d) \<or> e = execution_timeout \<or> (\<exists>x. e = internal_error x)
      | Inr out \<Rightarrow> True)"
proof (cases "if \<not> kernel_ready c then wait_for_kernel_ready 5000 0 c else Inr c")
  case (Inl x)
  then have "\<not> alive (kernel c)" by (auto split: if_splits dest: wait_fails_dead)
  with Inl show ?thesis by (simp add: execute_code_def responsive_def)
next
  case (Inr c1)
  then have ready: "kernel_ready c1"
    by (auto split: if_splits dest: wait_keeps_restart_count)
  show ?thesis
  proof (cases "alive (kernel c1)")
    case False
    with Inr ready show ?thesis by (simp add: execute_code_def responsive_def)
  next
    case True
    have "kernel_ready (snd (submit src c1))" using ready by (simp add: submit_def Let_def clear_output_queue_def)
    from loop_outcome [OF refl this, of "fst (submit src c1)" "[]"] Inr ready True
    show ?thesis
      by (auto simp: execute_code_def submit_def Let_def kernel_died_during_def
            split: prod.splits sum.splits)
  qed
qed

lemma install_package_outcome:
  "responsive c \<Longrightarrow> responsive (fst (snd (install_package pf p (c, inst))))"
  using execute_code_outcome [of "''import '' @ import_name_of p" c]
  by (auto simp: install_package_def split: pip_result.splits prod.splits sum.splits exn.splits)

lemma install_dependencies_outcome:
  "responsive c \<Longrightarrow> responsive (fst (snd (install_dependencies pf deps (c, inst))))"
proof (induction deps arbitrary: c inst)
  case Nil
  then show ?case by simp
next
  case (Cons p deps)
  obtain r c1 inst1 where ip: "install_package pf p (c, inst) = (r, c1, inst1)"
    by (cases "install_package pf p (c, inst)") auto
  with install_package_outcome [OF Cons.prems, of pf p inst] have "responsive c1" by simp
  from Cons.IH [OF this] Cons.IH [OF Cons.prems] ip \<open>responsive c1\<close> show ?case
    by (auto split: option.splits)
qed

lemma get_session_registers:
  "get_session t cid reg = (Inr si, reg1) \<Longrightarrow> map_of reg1 cid = Some si"
  by (auto simp: get_session_def Let_def update_conv' split: option.splits if_splits prod.splits sum.splits)

lemma create_session_registers:
  "create_session sp t cid reg = (Inr si, reg1) \<Longrightarrow> map_of reg1 cid = Some si"
  by (auto simp: create_session_def Let_def update_conv' split: sum.splits prod.splits if_splits)

lemma acquire_registers:
  "acquire ev req st = (Inr si, reg1) \<Longrightarrow> map_of reg1 (conversation_id req) = Some si"
  by (auto simp: acquire_def split: if_splits dest: get_session_registers create_session_registers)

lemma update_registered_keys:
  "map_of reg cid = Some si \<Longrightarrow> map fst (AList.update cid v reg) = map fst reg"
  by (metis map_of_eq_None_iff option.distinct(1) set_map update_keys)

lemma run_dependency_failure:
  assumes "acquire ev req st = (Inr si, reg1)" "dependencies req = Some deps"
    and "install_dependencies (pip_run ev) deps (controller si, installed st) = (Some e, c1, inst1)"
  shows "run_code_in_session ev req st =
     (Inl (run_handler e),
      \<lparr>sessions = AList.update (conversation_id req) (si\<lparr>controller := c1\<rparr>) reg1, installed = inst1\<rparr>)"
  using assms by (simp add: run_code_in_session_def acquire_def Let_def)


lemma install_dependencies_laws:
  "install_dependencies pf (xs @ ys) s =
     (case install_dependencies pf xs s of
        (Some e, s') \<Rightarrow> (Some e, s')
      | (None, s') \<Rightarrow> install_dependencies pf ys s')
   \<and> (fst (install_dependencies pf deps s) = Some e \<longrightarrow>
        (\<exists>pre p post s1. deps = pre @ p # post \<and> p \<noteq> []
           \<and> install_dependencies pf pre s = (None, s1)
           \<and> install_package pf p s1 = install_dependencies pf deps s
           \<and> reports p e
           \<and> (reported_stage e = failing_stage pf p s1 \<or> reported_stage e = Unstated)))
   \<and> (acquire ev req st = (Inr si, reg1) \<and> dependencies req = Some deps'
        \<and> install_dependencies (pip_run ev) deps' (controller si, installed st) = (Some e', c1, inst1) \<longrightarrow>
        fst (run_code_in_session ev req st) = Inl (run_handler e')
        \<and> map fst (sessions (snd (run_code_in_session ev req st))) = map fst reg1
        \<and> map_of (sessions (snd (run_code_in_session ev req st))) (conversation_id req)
            = Some (si\<lparr>controller := c1\<rparr>)
        \<and> (responsive (controller si) \<longrightarrow> responsive c1))"
proof (intro conjI impI)
  show "install_dependencies pf (xs @ ys) s =
     (case install_dependencies pf xs s of
        (Some e, s') \<Rightarrow> (Some e, s')
      | (None, s') \<Rightarrow> install_dependencies pf ys s')"
    by (rule install_dependencies_append)
next
  assume fails: "fst (install_dependencies pf deps s) = Some e"
  from install_dependencies_first_failure [OF this] obtain pre p post s1 where
    *: "deps = pre @ p # post" "p \<noteq> []" "install_dependencies pf pre s = (None, s1)"
       "install_package pf p s1 = install_dependencies pf deps s"
    by blast
  from fails *(4) have "install_package pf p s1 = (Some e, snd (install_dependencies pf deps s))"
    by (simp add: prod_eq_iff)
  from install_package_reports [OF this] * show
    "\<exists>pre p post s1. deps = pre @ p # post \<and> p \<noteq> []
           \<and> install_dependencies pf pre s = (None, s1)
           \<and> install_package pf p s1 = install_dependencies pf deps s
           \<and> reports p e
           \<and> (reported_stage e = failing_stage pf p s1 \<or> reported_stage e = Unstated)"
    by blast
next
  assume a: "acquire ev req st = (Inr si, reg1) \<and> dependencies req = Some deps'
        \<and> install_dependencies (pip_run ev) deps' (controller si, installed st) = (Some e', c1, inst1)"
  then have run: "run_code_in_session ev req st =
     (Inl (run_handler e'),
      \<lparr>sessions = AList.update (conversation_id req) (si\<lparr>controller := c1\<rparr>) reg1, installed = inst1\<rparr>)"
    by (simp add: run_dependency_failure)
  from a have reg: "map_of reg1 (conversation_id req) = Some si"
    by (blast dest: acquire_registers)
  show "fst (run_code_in_session ev req st) = Inl (run_handler e')" using run by simp
  show "map fst (sessions (snd (run_code_in_session ev req st))) = map fst reg1"
    using run reg by (simp add: update_registered_keys)
  show "map_of (sessions (snd (run_code_in_session ev req st))) (conversation_id req)
            = Some (si\<lparr>controller := c1\<rparr>)"
    using run by (simp add: update_conv')
  show "responsive c1" if "responsive (controller si)"
    using install_dependencies_outcome [OF that, of "pip_run ev" deps' "installed st"] a by simp
qed

lemma install_package_stage:
  assumes "install_package pf p s = (Some e, s')"
  shows "(pf (snd s) p = TimeoutExpired \<longrightarrow>
            e = HTTPException 408 (Text (''Package installation timed out for '' @ quoted p))
            \<and> reported_stage e = Install \<and> failing_stage pf p s = Install)
     \<and> (\<forall>rc out err. pf (snd s) p = Completed rc out err \<and> rc \<noteq> 0 \<longrightarrow>
            e = HTTPException 400 (Text (''Failed to install dependency '' @ quoted p @ '': ''
                  @ (if err \<noteq> [] then err else out)))
            \<and> reported_stage e = Install \<and> failing_stage pf p s = Install)
     \<and> (\<forall>out err st d. pf (snd s) p = Completed 0 out err
            \<and> fst (execute_code (import_of p) (fst s)) = Inl (HTTPException st d) \<longrightarrow>
            e = HTTPException 400 (FmtDetail (''Package '' @ quoted p
                  @ '' installed but failed to import in kernel: '') d)
            \<and> reported_stage e = Import \<and> failing_stage pf p s = Import)
     \<and> (\<forall>x. pf (snd s) p = PipRaised x \<longrightarrow>
            e = unexpected_install_error p x \<and> reported_stage e = Unstated
            \<and> failing_stage pf p s = Install)
     \<and> (\<forall>out err x. pf (snd s) p = Completed 0 out err
            \<and> fst (execute_code (import_of p) (fst s)) = Inl (RuntimeError x) \<longrightarrow>
            e = unexpected_install_error p (RuntimeError x) \<and> reported_stage e = Unstated
            \<and> failing_stage pf p s = Import)"
  using assms
  by (cases s)
     (auto simp: install_package_def reported_stage_def failing_stage_def import_of_def
        unexpected_install_error_def
        split: pip_result.splits if_splits prod.splits sum.splits exn.splits)

lemma install_package_failure_cases:
  assumes "install_package pf p s = (Some e, s')"
  shows "pf (snd s) p = TimeoutExpired
     \<or> (\<exists>rc out err. pf (snd s) p = Completed rc out err \<and> rc \<noteq> 0)
     \<or> (\<exists>x. pf (snd s) p = PipRaised x)
     \<or> (\<exists>out err. pf (snd s) p = Completed 0 out err
           \<and> ((\<exists>st d. fst (execute_code (import_of p) (fst s)) = Inl (HTTPException st d))
              \<or> (\<exists>x. fst (execute_code (import_of p) (fst s)) = Inl (RuntimeError x))))"
proof (cases s)
  case (Pair c inst)
  show ?thesis
  proof (cases "pf inst p")
    case (Completed rc out err)
    show ?thesis
    proof (cases "rc = 0")
      case False
      with Completed Pair show ?thesis by simp
    next
      case True
      from execute_code_outcome [of "import_of p" c]
      have "case fst (execute_code (import_of p) c) of
          Inl e \<Rightarrow> (\<exists>d. e = RuntimeError d) \<or> (\<exists>st d. e = HTTPException st d)
        | Inr out \<Rightarrow> True"
        by (auto simp: execution_timeout_def internal_error_def split: sum.splits)
      moreover from assms Pair Completed True
      have "\<exists>x. fst (execute_code (import_of p) c) = Inl x"
        by (auto simp: install_package_def import_of_def split: prod.splits sum.splits)
      ultimately show ?thesis using Completed True Pair by auto
    qed
  qed (use Pair in simp_all)
qed

text \<open>
  Claim C8, as the code has it. Installing a list is installing its front and, only
  if that raised nothing, its back from the state the front left. When a list fails,
  every name before some non-empty name \<open>p\<close> went through, the round of \<open>p\<close> raised
  the error and left the state, so no later name reached pip or the kernel, and the
  error names \<open>p\<close>. The error of a failed round names the stage where the code states
  it: a pip that timed out gives the 408 "Package installation timed out", a pip that
  returned a non-zero code the 400 "Failed to install dependency" with its stderr (its
  stdout when stderr is empty), both on the installation; an import that raised an
  \<open>HTTPException\<close> gives the 400 "installed but failed to import in kernel", on the
  import. A pip that raised another exception and an import that raised a
  \<open>RuntimeError\<close> both give the 500 "Unexpected error installing dependency", which
  states no stage; a round fails in no other way. In \<open>/run\<close> a failure of the list is
  the answer, the registry keeps its keys and the session of the request, and a
  responsive controller stays responsive.
\<close>

theorem install_dependencies_fail_fast:
  "install_dependencies pf (xs @ ys) s =
     (case install_dependencies pf xs s of
        (Some e, s') \<Rightarrow> (Some e, s')
      | (None, s') \<Rightarrow> install_dependencies pf ys s')
   \<and> (fst (install_dependencies pf deps s) = Some e \<longrightarrow>
        (\<exists>pre p post s1. deps = pre @ p # post \<and> p \<noteq> []
           \<and> install_dependencies pf pre s = (None, s1)
           \<and> install_package pf p s1 = install_dependencies pf deps s
           \<and> reports p e
           \<and> (reported_stage e = failing_stage pf p s1 \<or> reported_stage e = Unstated)))
   \<and> (install_package pf q sq = (Some e2, s2) \<longrightarrow>
        (pf (snd sq) q = TimeoutExpired \<longrightarrow>
            e2 = HTTPException 408 (Text (''Package installation timed out for '' @ quoted q))
            \<and> reported_stage e2 = Install \<and> failing_stage pf q sq = Install)
        \<and> (\<forall>rc out err. pf (snd sq) q = Completed rc out err \<and> rc \<noteq> 0 \<longrightarrow>
            e2 = HTTPException 400 (Text (''Failed to install dependency '' @ quoted q @ '': ''
                  @ (if err \<noteq> [] then err else out)))
            \<and> reported_stage e2 = Install \<and> failing_stage pf q sq = Install)
        \<and> (\<forall>out err st d. pf (snd sq) q = Completed 0 out err
            \<and> fst (execute_code (import_of q) (fst sq)) = Inl (HTTPException st d) \<longrightarrow>
            e2 = HTTPException 400 (FmtDetail (''Package '' @ quoted q
                  @ '' installed but failed to import in kernel: '') d)
            \<and> reported_stage e2 = Import \<and> failing_stage pf q sq = Import)
        \<and> (\<forall>x. pf (snd sq) q = PipRaised x \<longrightarrow>
            e2 = unexpected_install_error q x \<and> reported_stage e2 = Unstated
            \<and> failing_stage pf q sq = Install)
        \<and> (\<forall>out err x. pf (snd sq) q = Completed 0 out err
            \<and> fst (execute_code (import_of q) (fst sq)) = Inl (RuntimeError x) \<longrightarrow>
            e2 = unexpected_install_error q (RuntimeError x) \<and> reported_stage e2 = Unstated
            \<and> failing_stage pf q sq = Import)
        \<and> (pf (snd sq) q = TimeoutExpired
            \<or> (\<exists>rc out err. pf (snd sq) q = Completed rc out err \<and> rc \<noteq> 0)
            \<or> (\<exists>x. pf (snd sq) q = PipRaised x)
            \<or> (\<exists>out err. pf (snd sq) q = Completed 0 out err
                 \<and> ((\<exists>st d. fst (execute_code (import_of q) (fst sq)) = Inl (HTTPException st d))
                    \<or> (\<exists>x. fst (execute_code (import_of q) (fst sq)) = Inl (RuntimeError x))))))
   \<and> (acquire ev req st = (Inr si, reg1) \<and> dependencies req = Some deps'
        \<and> install_dependencies (pip_run ev) deps' (controller si, installed st) = (Some e', c1, inst1) \<longrightarrow>
        fst (run_code_in_session ev req st) = Inl (run_handler e')
        \<and> map fst (sessions (snd (run_code_in_session ev req st))) = map fst reg1
        \<and> map_of (sessions (snd (run_code_in_session ev req st))) (conversation_id req)
            = Some (si\<lparr>controller := c1\<rparr>)
        \<and> (responsive (controller si) \<longrightarrow> responsive c1))"
proof -
  note old = install_dependencies_laws [of pf xs ys s deps e ev req st si reg1 deps' e' c1 inst1]
  have stage: "install_package pf q sq = (Some e2, s2) \<longrightarrow>
        (pf (snd sq) q = TimeoutExpired \<longrightarrow>
            e2 = HTTPException 408 (Text (''Package installation timed out for '' @ quoted q))
            \<and> reported_stage e2 = Install \<and> failing_stage pf q sq = Install)
        \<and> (\<forall>rc out err. pf (snd sq) q = Completed rc out err \<and> rc \<noteq> 0 \<longrightarrow>
            e2 = HTTPException 400 (Text (''Failed to install dependency '' @ quoted q @ '': ''
                  @ (if err \<noteq> [] then err else out)))
            \<and> reported_stage e2 = Install \<and> failing_stage pf q sq = Install)
        \<and> (\<forall>out err st d. pf (snd sq) q = Completed 0 out err
            \<and> fst (execute_code (import_of q) (fst sq)) = Inl (HTTPException st d) \<longrightarrow>
            e2 = HTTPException 400 (FmtDetail (''Package '' @ quoted q
                  @ '' installed but failed to import in kernel: '') d)
            \<and> reported_stage e2 = Import \<and> failing_stage pf q sq = Import)
        \<and> (\<forall>x. pf (snd sq) q = PipRaised x \<longrightarrow>
            e2 = unexpected_install_error q x \<and> reported_stage e2 = Unstated
            \<and> failing_stage pf q sq = Install)
        \<and> (\<forall>out err x. pf (snd sq) q = Completed 0 out err
            \<and> fst (execute_code (import_of q) (fst sq)) = Inl (RuntimeError x) \<longrightarrow>
            e2 = unexpected_install_error q (RuntimeError x) \<and> reported_stage e2 = Unstated
            \<and> failing_stage pf q sq = Import)
        \<and> (pf (snd sq) q = TimeoutExpired
            \<or> (\<exists>rc out err. pf (snd sq) q = Completed rc out err \<and> rc \<noteq> 0)
            \<or> (\<exists>x. pf (snd sq) q = PipRaised x)
            \<or> (\<exists>out err. pf (snd sq) q = Completed 0 out err
                 \<and> ((\<exists>st d. fst (execute_code (import_of q) (fst sq)) = Inl (HTTPException st d))
                    \<or> (\<exists>x. fst (execute_code (import_of q) (fst sq)) = Inl (RuntimeError x)))))"
  proof
    assume a: "install_package pf q sq = (Some e2, s2)"
    from install_package_stage [OF a] install_package_failure_cases [OF a]
    show "(pf (snd sq) q = TimeoutExpired \<longrightarrow>
            e2 = HTTPException 408 (Text (''Package installation timed out for '' @ quoted q))
            \<and> reported_stage e2 = Install \<and> failing_stage pf q sq = Install)
        \<and> (\<forall>rc out err. pf (snd sq) q = Completed rc out err \<and> rc \<noteq> 0 \<longrightarrow>
            e2 = HTTPException 400 (Text (''Failed to install dependency '' @ quoted q @ '': ''
                  @ (if err \<noteq> [] then err else out)))
            \<and> reported_stage e2 = Install \<and> failing_stage pf q sq = Install)
        \<and> (\<forall>out err st d. pf (snd sq) q = Completed 0 out err
            \<and> fst (execute_code (import_of q) (fst sq)) = Inl (HTTPException st d) \<longrightarrow>
            e2 = HTTPException 400 (FmtDetail (''Package '' @ quoted q
                  @ '' installed but failed to import in kernel: '') d)
            \<and> reported_stage e2 = Import \<and> failing_stage pf q sq = Import)
        \<and> (\<forall>x. pf (snd sq) q = PipRaised x \<longrightarrow>
            e2 = unexpected_install_error q x \<and> reported_stage e2 = Unstated
            \<and> failing_stage pf q sq = Install)
        \<and> (\<forall>out err x. pf (snd sq) q = Completed 0 out err
            \<and> fst (execute_code (import_of q) (fst sq)) = Inl (RuntimeError x) \<longrightarrow>
            e2 = unexpected_install_error q (RuntimeError x) \<and> reported_stage e2 = Unstated
            \<and> failing_stage pf q sq = Import)
        \<and> (pf (snd sq) q = TimeoutExpired
            \<or> (\<exists>rc out err. pf (snd sq) q = Completed rc out err \<and> rc \<noteq> 0)
            \<or> (\<exists>x. pf (snd sq) q = PipRaised x)
            \<or> (\<exists>out err. pf (snd sq) q = Completed 0 out err
                 \<and> ((\<exists>st d. fst (execute_code (import_of q) (fst sq)) = Inl (HTTPException st d))
                    \<or> (\<exists>x. fst (execute_code (import_of q) (fst sq)) = Inl (RuntimeError x)))))"
      by (elim conjE, intro conjI) assumption+
  qed
  from old [THEN conjunct1] old [THEN conjunct2, THEN conjunct1] stage
    old [THEN conjunct2, THEN conjunct2]
  show ?thesis by (intro conjI)
qed

lemma install_two:
  "install_dependencies picky_pip [''six'', ''nope'', ''later''] (controller_of answers_at_once, [])
     = (Some (HTTPException 400 (Text (''Failed to install dependency '' @ quoted ''nope'' @ '': ''
          @ ''No matching distribution found''))),
        submitted ''import six'' (with_iopub ready_controller []), [''six'', ''nope''])"
  by (simp add: install_package_def picky_pip_def execute_code_ready submit_eq controller_of_def
        answers_at_once_def clear_step loop_step classify_def import_name_of_def before_char_def)

lemma acquire_one_session:
  "acquire good_env \<lparr>conversation_id = ''s1'', code = ''x=1'', dependencies = Some [''nope'', ''six'']\<rparr> one_session
     = (Inr \<lparr>controller = controller_of answers_at_once, created_at = 0, last_activity = 1000\<rparr>,
        [(''s1'', \<lparr>controller = controller_of answers_at_once, created_at = 0, last_activity = 1000\<rparr>)])"
  by (simp add: acquire_def one_session_def good_env_def get_session_def Let_def controller_of_def)

lemma install_nope:
  "install_dependencies picky_pip [''nope'', ''six''] (controller_of answers_at_once, [])
     = (Some (HTTPException 400 (Text (''Failed to install dependency '' @ quoted ''nope'' @ '': ''
          @ ''No matching distribution found''))),
        controller_of answers_at_once, [''nope''])"
  by (simp add: install_package_def picky_pip_def)

text \<open>
  Claim C8 as stated fails where the kernel dies while it imports: pip returned 0, the
  import failed, and the error is "Unexpected error installing dependency", which does
  not name the import stage.
\<close>

theorem import_crash_reported_as_install_error:
  "ok_pip [] ''numpy'' = Completed 0 [] []
   \<and> fst (install_dependencies ok_pip [''numpy''] (controller_of [Die 3000], []))
       = Some (HTTPException 500 (Fmt (''Unexpected error installing dependency '' @ quoted ''numpy'' @ '': '')
            (RuntimeError (Text ''Kernel died during execution. Please restart session.''))))
   \<and> failing_stage ok_pip ''numpy'' (controller_of [Die 3000], []) = Import
   \<and> reported_stage (HTTPException 500 (Fmt (''Unexpected error installing dependency '' @ quoted ''numpy'' @ '': '')
            (RuntimeError (Text ''Kernel died during execution. Please restart session.'')))) \<noteq> Import"
  by (simp add: install_package_def ok_pip_def execute_code_ready submit_eq controller_of_def
        clear_step loop_die kernel_died_during_def unexpected_install_error_def failing_stage_def
        reported_stage_def)


lemma import_pandas_fails:
  "execute_code (import_of ''pandas'') (controller_of import_fails)
     = (Inl (HTTPException 500 no_pandas),
        with_iopub (submitted ''import pandas'' ready_controller) [])"
  by (simp add: execute_code_ready submit_eq controller_of_def import_fails_def clear_step loop_step
        classify_def missing_pandas_def import_of_def import_name_of_def before_char_def
        internal_error_def no_pandas_def)

lemma import_numpy_dies:
  "execute_code (import_of ''numpy'') (controller_of [Die 3000])
     = (Inl kernel_died_during,
        (submitted ''import numpy'' ready_controller)
          \<lparr>kernel := (kernel (submitted ''import numpy'' ready_controller))\<lparr>alive := False, iopub := []\<rparr>,
            kernel_ready := False\<rparr>)"
  by (simp add: execute_code_ready submit_eq controller_of_def clear_step loop_die
        import_of_def import_name_of_def before_char_def)

text \<open>
  Claim C8 at concrete inputs: pip fails on \<open>nope\<close>, after \<open>six\<close> and before
  \<open>later\<close>; the five ways a round fails (pip times out on \<open>slow\<close>, returns 1 on
  \<open>nope\<close>, cannot be started for \<open>broken\<close>; the import of \<open>pandas\<close> meets an
  error of the interpreter and the kernel dies at the import of \<open>numpy\<close>); and a
  request for \<open>nope\<close> and \<open>six\<close> on the registered session \<open>s1\<close>.
\<close>

theorem install_dependencies_fail_fast_witness:
  "install_dependencies picky_pip ([''six'', ''nope''] @ [''later'']) (controller_of answers_at_once, [])
     = (Some no_distribution, submitted ''import six'' (with_iopub ready_controller []), [''six'', ''nope''])
   \<and> fst (install_dependencies picky_pip [''six'', ''nope'', ''later''] (controller_of answers_at_once, []))
       = Some no_distribution
   \<and> (\<exists>pre p post s1. [''six'', ''nope'', ''later''] = pre @ p # post \<and> p \<noteq> []
         \<and> install_dependencies picky_pip pre (controller_of answers_at_once, []) = (None, s1)
         \<and> install_package picky_pip p s1
             = install_dependencies picky_pip [''six'', ''nope'', ''later''] (controller_of answers_at_once, [])
         \<and> reports p no_distribution
         \<and> (reported_stage no_distribution = failing_stage picky_pip p s1
              \<or> reported_stage no_distribution = Unstated))
   \<and> fst (install_package moody_pip ''slow'' (ready_controller, []))
       = Some (HTTPException 408 (Text (''Package installation timed out for '' @ quoted ''slow'')))
   \<and> reported_stage (HTTPException 408 (Text (''Package installation timed out for '' @ quoted ''slow'')))
       = Install
   \<and> fst (install_package moody_pip ''nope'' (ready_controller, [])) = Some no_distribution
   \<and> reported_stage no_distribution = Install
   \<and> fst (install_package moody_pip ''pandas'' (controller_of import_fails, []))
       = Some (HTTPException 400 (FmtDetail (''Package '' @ quoted ''pandas''
             @ '' installed but failed to import in kernel: '') no_pandas))
   \<and> reported_stage (HTTPException 400 (FmtDetail (''Package '' @ quoted ''pandas''
             @ '' installed but failed to import in kernel: '') no_pandas)) = Import
   \<and> fst (install_package moody_pip ''broken'' (ready_controller, []))
       = Some (unexpected_install_error ''broken'' (OtherError ''No such file or directory: python''))
   \<and> reported_stage (unexpected_install_error ''broken'' (OtherError ''No such file or directory: python''))
       = Unstated
   \<and> fst (install_package moody_pip ''numpy'' (controller_of [Die 3000], []))
       = Some (unexpected_install_error ''numpy'' kernel_died_during)
   \<and> reported_stage (unexpected_install_error ''numpy'' kernel_died_during) = Unstated
   \<and> failing_stage moody_pip ''numpy'' (controller_of [Die 3000], []) = Import
   \<and> fst (run_code_in_session good_env nope_request one_session) = Inl no_distribution
   \<and> map fst (sessions (snd (run_code_in_session good_env nope_request one_session))) = [''s1'']
   \<and> map_of (sessions (snd (run_code_in_session good_env nope_request one_session))) ''s1''
       = Some \<lparr>controller = controller_of answers_at_once, created_at = 0, last_activity = 1000\<rparr>
   \<and> responsive (controller_of answers_at_once)"
proof -
  let ?c = "controller_of answers_at_once"
  let ?si = "\<lparr>controller = ?c, created_at = 0, last_activity = 1000\<rparr>"
  let ?slow = "HTTPException 408 (Text (''Package installation timed out for '' @ quoted ''slow''))"
  let ?pandas = "HTTPException 400 (FmtDetail (''Package '' @ quoted ''pandas''
             @ '' installed but failed to import in kernel: '') no_pandas)"
  let ?broken = "unexpected_install_error ''broken'' (OtherError ''No such file or directory: python'')"
  let ?numpy = "unexpected_install_error ''numpy'' kernel_died_during"
  note three = install_two [folded no_distribution_def]
  note ff = install_dependencies_fail_fast [where pf = picky_pip and s = "(?c, [])"]
  note stage = install_dependencies_fail_fast [where pf = moody_pip, THEN conjunct2, THEN conjunct2,
      THEN conjunct1, THEN mp]
  have a1: "install_dependencies picky_pip ([''six'', ''nope''] @ [''later'']) (?c, [])
     = (Some no_distribution, submitted ''import six'' (with_iopub ready_controller []), [''six'', ''nope''])"
    using three by simp
  have a2: "fst (install_dependencies picky_pip [''six'', ''nope'', ''later''] (?c, [])) = Some no_distribution"
    using three by simp
  have a3: "\<exists>pre p post s1. [''six'', ''nope'', ''later''] = pre @ p # post \<and> p \<noteq> []
         \<and> install_dependencies picky_pip pre (?c, []) = (None, s1)
         \<and> install_package picky_pip p s1
             = install_dependencies picky_pip [''six'', ''nope'', ''later''] (?c, [])
         \<and> reports p no_distribution
         \<and> (reported_stage no_distribution = failing_stage picky_pip p s1
              \<or> reported_stage no_distribution = Unstated)"
    using ff [where deps = "[''six'', ''nope'', ''later'']" and e = no_distribution,
        THEN conjunct2, THEN conjunct1] a2 by (rule mp)
  have slow: "install_package moody_pip ''slow'' (ready_controller, [])
      = (Some ?slow, ready_controller, [''slow''])"
    by (simp add: install_package_def moody_pip_def)
  have nope: "install_package moody_pip ''nope'' (ready_controller, [])
      = (Some no_distribution, ready_controller, [''nope''])"
    by (simp add: install_package_def moody_pip_def no_distribution_def)
  have pandas: "install_package moody_pip ''pandas'' (controller_of import_fails, [])
      = (Some ?pandas, with_iopub (submitted ''import pandas'' ready_controller) [], [''pandas''])"
    using import_pandas_fails by (simp add: install_package_def moody_pip_def import_of_def)
  have broken: "install_package moody_pip ''broken'' (ready_controller, [])
      = (Some ?broken, ready_controller, [''broken''])"
    by (simp add: install_package_def moody_pip_def)
  have numpy: "install_package moody_pip ''numpy'' (controller_of [Die 3000], [])
      = (Some ?numpy,
         (submitted ''import numpy'' ready_controller)
          \<lparr>kernel := (kernel (submitted ''import numpy'' ready_controller))\<lparr>alive := False, iopub := []\<rparr>,
            kernel_ready := False\<rparr>, [''numpy''])"
    using import_numpy_dies
    by (simp add: install_package_def moody_pip_def import_of_def kernel_died_during_def)
  have b1: "reported_stage ?slow = Install"
    using stage [OF slow, THEN conjunct1] by (simp add: moody_pip_def)
  have b2: "reported_stage no_distribution = Install"
    using stage [OF nope, THEN conjunct2, THEN conjunct1, THEN spec, THEN spec, THEN spec,
        of 1 "[]" "''No matching distribution found''"]
    by (simp add: moody_pip_def)
  have b3: "reported_stage ?pandas = Import"
    using stage [OF pandas, THEN conjunct2, THEN conjunct2, THEN conjunct1, THEN spec, THEN spec,
        THEN spec, THEN spec, of "[]" "[]" 500 no_pandas] import_pandas_fails
    by (simp add: moody_pip_def)
  have b4: "reported_stage ?broken = Unstated"
    using stage [OF broken, THEN conjunct2, THEN conjunct2, THEN conjunct2, THEN conjunct1, THEN spec,
        of "OtherError ''No such file or directory: python''"]
    by (simp add: moody_pip_def)
  have b5: "reported_stage ?numpy = Unstated
      \<and> failing_stage moody_pip ''numpy'' (controller_of [Die 3000], []) = Import"
    using stage [OF numpy, THEN conjunct2, THEN conjunct2, THEN conjunct2, THEN conjunct2,
        THEN conjunct1, THEN spec, THEN spec, THEN spec,
        of "[]" "[]" "Text ''Kernel died during execution. Please restart session.''"]
      import_numpy_dies
    by (simp add: moody_pip_def kernel_died_during_def)
  have hyp: "acquire good_env nope_request one_session = (Inr ?si, [(''s1'', ?si)])
      \<and> dependencies nope_request = Some [''nope'', ''six'']
      \<and> install_dependencies (pip_run good_env) [''nope'', ''six''] (controller ?si, installed one_session)
          = (Some no_distribution, ?c, [''nope''])"
    using acquire_one_session install_nope
    by (simp add: nope_request_def no_distribution_def good_env_def one_session_def)
  have handler: "run_handler no_distribution = no_distribution"
    by (simp add: run_handler_def no_distribution_def)
  have ready: "responsive ?c" by (simp add: responsive_def controller_of_def)
  from ff [where ev = good_env and req = nope_request and st = one_session and si = ?si
      and ?reg1.0 = "[(''s1'', ?si)]" and deps' = "[''nope'', ''six'']" and e' = no_distribution
      and ?c1.0 = ?c and ?inst1.0 = "[''nope'']", THEN conjunct2, THEN conjunct2, THEN conjunct2,
      THEN mp, OF hyp]
  have a4: "fst (run_code_in_session good_env nope_request one_session) = Inl no_distribution
     \<and> map fst (sessions (snd (run_code_in_session good_env nope_request one_session))) = [''s1'']
     \<and> map_of (sessions (snd (run_code_in_session good_env nope_request one_session))) ''s1'' = Some ?si"
    by (simp add: handler nope_request_def)
  have c1: "fst (install_package moody_pip ''slow'' (ready_controller, [])) = Some ?slow"
    using slow by simp
  have c2: "fst (install_package moody_pip ''nope'' (ready_controller, [])) = Some no_distribution"
    using nope by simp
  have c3: "fst (install_package moody_pip ''pandas'' (controller_of import_fails, [])) = Some ?pandas"
    using pandas by simp
  have c4: "fst (install_package moody_pip ''broken'' (ready_controller, [])) = Some ?broken"
    using broken by simp
  have c5: "fst (install_package moody_pip ''numpy'' (controller_of [Die 3000], [])) = Some ?numpy"
    using numpy by simp
  from a1 a2 a3 c1 b1 c2 b2 c3 b3 c4 b4 c5 b5 a4 ready show ?thesis by (intro conjI) simp_all
qed

section \<open>Requests on an unknown conversation id\<close>

lemma create_session_failure:
  "create_session sp t cid reg = (Inl e, reg1) \<Longrightarrow>
   (\<exists>d. e = HTTPException 500 d) \<and> map_of reg1 cid = None"
  by (auto simp: create_session_def Let_def delete_conv' update_conv'
      split: sum.splits prod.splits if_splits)

lemma reports_status:
  "reports p e \<Longrightarrow> \<exists>st d. e = HTTPException st d \<and> st \<noteq> 404"
  by (auto simp: reports_def split: exn.splits detail.splits)

lemma install_dependencies_status:
  assumes "fst (install_dependencies pf deps s) = Some e"
  shows "\<exists>st d. e = HTTPException st d \<and> st \<noteq> 404"
proof -
  from install_dependencies_first_failure [OF assms] obtain p s1 where
    "install_package pf p s1 = install_dependencies pf deps s" by blast
  with assms have "install_package pf p s1 = (Some e, snd (install_dependencies pf deps s))"
    by (simp add: prod_eq_iff)
  from install_package_reports [OF this] show ?thesis by (blast dest: reports_status)
qed

lemma execute_code_status:
  "fst (execute_code src c) = Inl e \<Longrightarrow> run_handler e \<noteq> HTTPException 404 d"
  using execute_code_outcome [of src c]
  by (auto simp: run_handler_def execution_timeout_def internal_error_def)

lemma run_without_session:
  assumes "map_of (sessions st) (conversation_id req) = None"
  shows "(\<forall>d. fst (run_code_in_session ev req st) \<noteq> Inl (HTTPException 404 d))
     \<and> (map_of (sessions (snd (run_code_in_session ev req st))) (conversation_id req) \<noteq> None
          \<longleftrightarrow> (\<exists>si reg1. create_session (spawn_result ev) (time_now ev) (conversation_id req)
                 (sessions st) = (Inr si, reg1)))"
proof -
  let ?cid = "conversation_id req"
  obtain r reg1 where cs: "create_session (spawn_result ev) (time_now ev) ?cid (sessions st) = (r, reg1)"
    by (cases "create_session (spawn_result ev) (time_now ev) ?cid (sessions st)")
  show ?thesis
  proof (cases r)
    case (Inl e)
    with cs create_session_failure [of "spawn_result ev" "time_now ev" ?cid "sessions st" e reg1]
    obtain d where "e = HTTPException 500 d" "map_of reg1 ?cid = None" by blast
    with Inl cs assms show ?thesis
      by (simp add: run_code_in_session_def Let_def run_handler_def)
  next
    case (Inr si)
    obtain x c1 inst1 where deps: "(case dependencies req of
          None \<Rightarrow> (None, controller si, installed st)
        | Some deps \<Rightarrow> install_dependencies (pip_run ev) deps (controller si, installed st))
        = (x, c1, inst1)"
      by (metis prod_cases3)
    show ?thesis
    proof (cases x)
      case (Some e)
      with deps obtain ds where "dependencies req = Some ds"
        "fst (install_dependencies (pip_run ev) ds (controller si, installed st)) = Some e"
        by (auto split: option.splits)
      from install_dependencies_status [OF this(2)] obtain stc dd where
        "e = HTTPException stc dd" "stc \<noteq> 404" by blast
      with Some deps Inr cs assms show ?thesis
        by (simp add: run_code_in_session_def Let_def run_handler_def update_conv')
    next
      case None
      obtain y c2 where ex: "execute_code (code req) c1 = (y, c2)"
        by (cases "execute_code (code req) c1")
      show ?thesis
      proof (cases y)
        case (Inl e)
        with ex have "fst (execute_code (code req) c1) = Inl e" by simp
        from execute_code_status [OF this] Inl ex None deps Inr cs assms show ?thesis
          by (simp add: run_code_in_session_def Let_def update_conv')
      next
        case (Inr out)
        with ex None deps \<open>r = Inr si\<close> cs assms show ?thesis
          by (simp add: run_code_in_session_def Let_def update_conv')
      qed
    qed
  qed
qed


lemma never_registered_absent:
  "never_registered cid rs st \<Longrightarrow> map_of (sessions (serve_all rs st)) cid = None"
  by (induction rs arbitrary: st) auto

lemma execute_code_success_ready:
  assumes "kernel_ready c" "execute_code src c = (Inr out, c')"
  shows "kernel_ready c' \<and> executed (kernel c') = executed (kernel c) @ [src]"
proof -
  from execute_code_success_loop [OF assms(2)] assms(1) obtain outs where
    run: "execute_code_loop (fst (submit src c)) [] (snd (submit src c)) = (Inr outs, c')"
    by auto
  from loop_success [OF refl run] obtain rest where "c' = with_iopub (snd (submit src c)) rest"
    by blast
  with assms(1) show ?thesis
    by (simp add: submit_def Let_def execute_def clear_output_queue_def clear_queue_keeps with_iopub_def)
qed

lemma install_package_success:
  assumes "kernel_ready c" "install_package pf p (c, inst) = (None, c', inst')"
  shows "kernel_ready c' \<and> executed (kernel c') = executed (kernel c) @ [import_of p]
     \<and> inst' = inst @ [p]"
  using assms execute_code_success_ready [of c "import_of p"]
  by (auto simp: install_package_def import_of_def
      split: pip_result.splits if_splits prod.splits sum.splits exn.splits)

lemma install_dependencies_success:
  assumes "kernel_ready c" "install_dependencies pf deps (c, inst) = (None, c', inst')"
  shows "kernel_ready c'
     \<and> executed (kernel c') = executed (kernel c) @ map import_of (filter (\<lambda>p. p \<noteq> []) deps)
     \<and> inst' = inst @ filter (\<lambda>p. p \<noteq> []) deps"
  using assms
proof (induction deps arbitrary: c inst)
  case Nil
  then show ?case by simp
next
  case (Cons p deps)
  show ?case
  proof (cases "p = []")
    case True
    with Cons show ?thesis by simp
  next
    case False
    obtain r c1 inst1 where ip: "install_package pf p (c, inst) = (r, c1, inst1)"
      by (cases "install_package pf p (c, inst)") auto
    with False Cons.prems(2) have r: "r = None"
      and rest: "install_dependencies pf deps (c1, inst1) = (None, c', inst')"
      by (auto split: option.splits)
    from install_package_success [OF Cons.prems(1) ip [unfolded r]]
    have c1: "kernel_ready c1" "executed (kernel c1) = executed (kernel c) @ [import_of p]"
      "inst1 = inst @ [p]" by simp_all
    from Cons.IH [OF c1(1) rest] c1 False show ?thesis by simp
  qed
qed

lemma wait_probes:
  "wait_for_kernel_ready t e c = Inr c' \<Longrightarrow> \<not> kernel_ready c \<Longrightarrow>
   kernel_ready c' \<and> executed (kernel c') = executed (kernel c) @ [''1+1'']"
proof (induction t e c rule: wait_for_kernel_ready.induct)
  case (1 timeout elapsed c)
  from "1.prems" show ?case
    apply (subst (asm) wait_for_kernel_ready.simps)
    apply (auto simp: execute_def drain_until_idle_keeps split: if_splits dest: "1.IH")
    done
qed

lemma create_notebook_success:
  assumes "create_notebook sp folder name = Inr c"
  shows "\<exists>k. sp = Inr k \<and> kernel_ready c \<and> executed (kernel c) = executed k @ [''1+1'']"
proof -
  from assms obtain k where sp: "sp = Inr k" by (cases sp) (auto simp: create_notebook_def)
  let ?c0 = "\<lparr>folder_path = folder, notebook_path = path_join folder (name @ ''.ipynb''),
     notebook_exists = True, kernel = k\<lparr>channels := True\<rparr>, kernel_ready = False\<rparr>"
  from assms sp obtain c1 where w: "wait_for_kernel_ready 30000 0 ?c0 = Inr c1"
    and c: "c = clear_output_queue c1"
    by (auto simp: create_notebook_def split: sum.splits)
  from wait_probes [OF w] have "kernel_ready c1 \<and> executed (kernel c1) = executed k @ [''1+1'']"
    by simp
  with c sp show ?thesis by (auto simp: clear_output_queue_def clear_queue_keeps)
qed

lemma create_session_success:
  assumes "create_session sp t cid reg = (Inr si, reg1)"
  shows "\<exists>k. sp = Inr k \<and> kernel_ready (controller si) \<and> created_at si = t
     \<and> executed (kernel (controller si)) = executed k @ [''1+1'', setup_code]"
proof -
  from assms obtain c where nb: "create_notebook sp (path_join SESSIONS_FOLDER cid) (''notebook_'' @ cid) = Inr c"
    by (auto simp: create_session_def Let_def split: sum.splits)
  from create_notebook_success [OF this] obtain k where
    k: "sp = Inr k" "kernel_ready c" "executed (kernel c) = executed k @ [''1+1'']" by blast
  from assms nb obtain out c' where ex: "execute_code setup_code c = (Inr out, c')"
    and si: "si = \<lparr>controller = c', created_at = t, last_activity = t\<rparr>"
    by (auto simp: create_session_def Let_def split: sum.splits prod.splits)
  from execute_code_success_ready [OF k(2) ex] k si show ?thesis by simp
qed

lemma run_success_on_absent_id:
  assumes absent: "map_of (sessions st) (conversation_id req) = None"
    and ok: "fst (run_code_in_session ev req st) = Inr out"
  shows "\<exists>k si. spawn_result ev = Inr k
     \<and> map_of (sessions (snd (run_code_in_session ev req st))) (conversation_id req) = Some si
     \<and> created_at si = time_now ev
     \<and> executed (kernel (controller si))
         = executed k @ [''1+1'', setup_code] @ map import_of (deps_of req) @ [code req]"
proof -
  let ?cid = "conversation_id req"
  obtain r reg1 where cs: "create_session (spawn_result ev) (time_now ev) ?cid (sessions st) = (r, reg1)"
    by (cases "create_session (spawn_result ev) (time_now ev) ?cid (sessions st)")
  from ok absent cs obtain si where si: "r = Inr si"
    by (cases r) (auto simp: run_code_in_session_def Let_def)
  obtain x c1 inst1 where deps: "(case dependencies req of
          None \<Rightarrow> (None, controller si, installed st)
        | Some ds \<Rightarrow> install_dependencies (pip_run ev) ds (controller si, installed st))
        = (x, c1, inst1)"
    by (rule prod_cases3)
  obtain y c2 where ex: "execute_code (code req) c1 = (y, c2)"
    by (cases "execute_code (code req) c1")
  from ok absent cs si deps have x: "x = None"
    by (cases x) (simp_all add: run_code_in_session_def Let_def)
  from ok absent cs si deps x ex have y: "y = Inr out"
    by (cases y) (simp_all add: run_code_in_session_def Let_def)
  from cs si create_session_success [of "spawn_result ev" "time_now ev" ?cid "sessions st" si reg1]
  obtain k where k: "spawn_result ev = Inr k" "kernel_ready (controller si)" "created_at si = time_now ev"
    "executed (kernel (controller si)) = executed k @ [''1+1'', setup_code]"
    by blast
  have c1: "kernel_ready c1
      \<and> executed (kernel c1) = executed (kernel (controller si)) @ map import_of (deps_of req)"
  proof (cases "dependencies req")
    case None
    with deps k(2) show ?thesis by (simp add: deps_of_def)
  next
    case (Some ds)
    with deps x have "install_dependencies (pip_run ev) ds (controller si, installed st)
        = (None, c1, inst1)" by simp
    from install_dependencies_success [OF k(2) this] Some show ?thesis by (simp add: deps_of_def)
  qed
  from execute_code_success_ready [of c1 "code req" out c2] c1 ex y
  have c2: "executed (kernel c2) = executed (kernel c1) @ [code req]" by simp
  from absent cs si deps x ex y
  have "snd (run_code_in_session ev req st)
      = \<lparr>sessions = AList.update ?cid (si\<lparr>controller := c2\<rparr>) reg1, installed = inst1\<rparr>"
    by (simp add: run_code_in_session_def Let_def)
  then have "map_of (sessions (snd (run_code_in_session ev req st))) ?cid = Some (si\<lparr>controller := c2\<rparr>)"
    by (simp add: update_conv')
  with k c1 c2 show ?thesis by simp
qed

lemma run_spawn_failure:
  assumes "map_of (sessions st) (conversation_id req) = None" "spawn_result ev = Inl x"
  shows "run_code_in_session ev req st = (Inl (HTTPException 500 (Fmt ''Failed to create session: '' x)), st)"
  using assms
  by (simp add: run_code_in_session_def Let_def create_session_def create_notebook_def run_handler_def)

text \<open>
  Claim C1, as the code has it. Take a conversation id that no state of the server has
  held since it started. \<open>/run\<close> on it never answers 404. When \<open>/run\<close> returns an
  output, the kernel was spawned and the id is registered with a session created at
  this request, whose kernel has run the readiness probe, the setup code, the import
  of every non-empty dependency and the code of the request, in this order. When the
  kernel cannot be spawned, \<open>/run\<close> answers 500 "Failed to create session" and leaves
  the server as it was. In every case the id is registered afterwards exactly when
  \<open>_create_session\<close> succeeded.
\<close>

theorem first_run_creates_session:
  assumes "never_registered (conversation_id req) history started"
  shows "(\<forall>d. fst (run_code_in_session ev req (serve_all history started)) \<noteq> Inl (HTTPException 404 d))
     \<and> (\<forall>out. fst (run_code_in_session ev req (serve_all history started)) = Inr out \<longrightarrow>
          (\<exists>k si. spawn_result ev = Inr k
             \<and> map_of (sessions (snd (run_code_in_session ev req (serve_all history started))))
                  (conversation_id req) = Some si
             \<and> created_at si = time_now ev
             \<and> executed (kernel (controller si))
                 = executed k @ [''1+1'', setup_code] @ map import_of (deps_of req) @ [code req]))
     \<and> (\<forall>x. spawn_result ev = Inl x \<longrightarrow>
          run_code_in_session ev req (serve_all history started)
            = (Inl (HTTPException 500 (Fmt ''Failed to create session: '' x)), serve_all history started))
     \<and> (map_of (sessions (snd (run_code_in_session ev req (serve_all history started))))
            (conversation_id req) \<noteq> None
          \<longleftrightarrow> (\<exists>si reg1. create_session (spawn_result ev) (time_now ev) (conversation_id req)
                 (sessions (serve_all history started)) = (Inr si, reg1)))"
proof -
  from never_registered_absent [OF assms]
  have absent: "map_of (sessions (serve_all history started)) (conversation_id req) = None" .
  note a = run_without_session [OF absent, of ev]
  show ?thesis
  proof (intro conjI allI impI)
    fix d show "fst (run_code_in_session ev req (serve_all history started)) \<noteq> Inl (HTTPException 404 d)"
      using a [THEN conjunct1] by (rule spec)
  next
    fix out assume "fst (run_code_in_session ev req (serve_all history started)) = Inr out"
    then show "\<exists>k si. spawn_result ev = Inr k
             \<and> map_of (sessions (snd (run_code_in_session ev req (serve_all history started))))
                  (conversation_id req) = Some si
             \<and> created_at si = time_now ev
             \<and> executed (kernel (controller si))
                 = executed k @ [''1+1'', setup_code] @ map import_of (deps_of req) @ [code req]"
      by (rule run_success_on_absent_id [OF absent])
  next
    fix x assume "spawn_result ev = Inl x"
    then show "run_code_in_session ev req (serve_all history started)
            = (Inl (HTTPException 500 (Fmt ''Failed to create session: '' x)), serve_all history started)"
      by (rule run_spawn_failure [OF absent])
  next
    show "(map_of (sessions (snd (run_code_in_session ev req (serve_all history started))))
            (conversation_id req) \<noteq> None)
          = (\<exists>si reg1. create_session (spawn_result ev) (time_now ev) (conversation_id req)
                 (sessions (serve_all history started)) = (Inr si, reg1))"
      by (rule a [THEN conjunct2])
  qed
qed

lemma created_notebook:
  "create_notebook (Inr fresh_kernel) ''/mnt/jupyter_sessions/s1'' ''notebook_s1''
     = Inr (with_iopub (submitted ''1+1'' ready_controller)
         [Arrive 800 (Status (Some 1) ''idle''), Arrive 1000 (Status (Some 2) ''idle'')])"
  by (simp add: create_notebook_def wait_for_kernel_ready.simps execute_def drain_until_idle_None
        get_iopub_msg_def clear_output_queue_def clear_queue_None with_iopub_def submitted_def
        ready_controller_def idle_kernel_def fresh_kernel_def path_join_def)

lemma created_session:
  "create_session (Inr fresh_kernel) 1000 ''s1'' []
     = (Inr \<lparr>controller = with_iopub (submitted setup_code (submitted ''1+1'' ready_controller))
                 [Arrive 1000 (Status (Some 2) ''idle'')],
             created_at = 1000, last_activity = 1000\<rparr>,
        [(''s1'', \<lparr>controller = with_iopub (submitted setup_code (submitted ''1+1'' ready_controller))
                 [Arrive 1000 (Status (Some 2) ''idle'')],
             created_at = 1000, last_activity = 1000\<rparr>)])"
  by (simp add: create_session_def Let_def path_join_def SESSIONS_FOLDER_def created_notebook
        execute_code_ready submit_eq clear_step loop_step classify_def)

lemma ended: "end_session ''s1'' (sessions one_session)
    = (Inr (''Session '' @ quoted ''s1'' @ '' ended successfully and cleanup initiated.''), [])"
  by (simp add: end_session_def one_session_def)

lemma first_run_evaluated:
  "run_code_in_session good_env plain_request started
     = (Inr [],
        \<lparr>sessions = [(''s1'', \<lparr>controller = with_iopub
              (submitted ''x=1'' (submitted setup_code (submitted ''1+1'' ready_controller))) [],
            created_at = 1000, last_activity = 1000\<rparr>)],
         installed = []\<rparr>)"
  by (simp add: started_def run_code_in_session_def Let_def plain_request_def good_env_def
        created_session execute_code_ready submit_eq clear_step loop_step classify_def)

text \<open>
  Claim C1 as stated fails on the first request of a server: the registry is empty,
  \<open>/run\<close> on \<open>s1\<close> returns an output and \<open>s1\<close> is registered.
\<close>

theorem first_run_is_not_rejected:
  "map_of (sessions started) ''s1'' = None
   \<and> fst (run_code_in_session good_env plain_request started) = Inr []
   \<and> map_of (sessions (snd (run_code_in_session good_env plain_request started))) ''s1'' \<noteq> None"
  by (simp add: first_run_evaluated) (simp add: started_def)

lemma quiet_history_served:
  "serve_all quiet_history started = started"
  by (simp add: quiet_history_def serve_def started_def end_session_def reset_session_def
        get_session_def cleanup_cycle_def)

text \<open>
  Claim C1 at concrete inputs: a server that has swept once and answered
  \<open>/end_session\<close> and \<open>/reset\<close> on another, unknown id; then \<open>/run\<close> on \<open>s1\<close>, with
  a kernel that starts and with one that cannot be spawned.
\<close>

theorem first_run_creates_session_witness:
  "never_registered (conversation_id plain_request) quiet_history started
   \<and> serve_all quiet_history started = started
   \<and> run_code_in_session good_env plain_request (serve_all quiet_history started)
       = (Inr [],
          \<lparr>sessions = [(''s1'', \<lparr>controller = with_iopub
                (submitted ''x=1'' (submitted setup_code (submitted ''1+1'' ready_controller))) [],
              created_at = 1000, last_activity = 1000\<rparr>)],
           installed = []\<rparr>)
   \<and> (\<exists>k si. spawn_result good_env = Inr k
         \<and> map_of (sessions (snd (run_code_in_session good_env plain_request
                (serve_all quiet_history started))))
              (conversation_id plain_request) = Some si
         \<and> created_at si = time_now good_env
         \<and> executed (kernel (controller si))
             = executed k @ [''1+1'', setup_code] @ map import_of (deps_of plain_request)
               @ [code plain_request])
   \<and> executed (kernel (with_iopub
         (submitted ''x=1'' (submitted setup_code (submitted ''1+1'' ready_controller))) []))
       = [''1+1'', setup_code, ''x=1'']
   \<and> run_code_in_session bad_env plain_request (serve_all quiet_history started)
       = (Inl (HTTPException 500 (Fmt ''Failed to create session: '' no_kernel)), started)"
proof -
  have never: "never_registered (conversation_id plain_request) quiet_history started"
    by (simp add: quiet_history_def serve_def started_def end_session_def reset_session_def
          get_session_def cleanup_cycle_def)
  note quiet = quiet_history_served
  have run: "run_code_in_session good_env plain_request (serve_all quiet_history started)
       = (Inr [],
          \<lparr>sessions = [(''s1'', \<lparr>controller = with_iopub
                (submitted ''x=1'' (submitted setup_code (submitted ''1+1'' ready_controller))) [],
              created_at = 1000, last_activity = 1000\<rparr>)],
           installed = []\<rparr>)"
    by (simp add: quiet first_run_evaluated)
  then have ok: "fst (run_code_in_session good_env plain_request (serve_all quiet_history started)) = Inr []"
    by simp
  note created = first_run_creates_session [OF never, of good_env, THEN conjunct2, THEN conjunct1,
      THEN spec, THEN mp, OF ok]
  have ex: "executed (kernel (with_iopub
         (submitted ''x=1'' (submitted setup_code (submitted ''1+1'' ready_controller))) []))
       = [''1+1'', setup_code, ''x=1'']"
    by simp
  have no_spawn: "spawn_result bad_env = Inl no_kernel" by (simp add: bad_env_def)
  note refused = first_run_creates_session [OF never, of bad_env, THEN conjunct2, THEN conjunct2,
      THEN conjunct1, THEN spec, THEN mp, OF no_spawn, unfolded quiet]
  have bad: "run_code_in_session bad_env plain_request (serve_all quiet_history started)
       = (Inl (HTTPException 500 (Fmt ''Failed to create session: '' no_kernel)), started)"
    unfolding quiet by (rule refused)
  from never quiet run created ex bad show ?thesis by (intro conjI)
qed

text \<open>
  Ending a session leaves no trace of its id: \<open>end_session\<close> removes \<open>s1\<close>, and the
  following \<open>/run\<close> on \<open>s1\<close> finds the id absent, returns an output and registers
  \<open>s1\<close> again. The script \<^verbatim>\<open>test_api.py\<close> expects 404 of this request.
\<close>

theorem run_after_end_session_creates_again:
  "fst (end_session ''s1'' (sessions one_session))
     = Inr (''Session '' @ quoted ''s1'' @ '' ended successfully and cleanup initiated.'')
   \<and> map_of (sessions after_end) ''s1'' = None
   \<and> fst (run_code_in_session good_env plain_request after_end) = Inr []
   \<and> map_of (sessions (snd (run_code_in_session good_env plain_request after_end))) ''s1'' \<noteq> None"
  by (simp add: ended after_end_def run_code_in_session_def Let_def plain_request_def good_env_def
        created_session execute_code_ready submit_eq clear_step loop_step classify_def)

section \<open>Failed creation, recovery and reset\<close>

text \<open>
  A restart that raises inside \<open>/reset\<close>, on a registered session whose kernel is
  alive and ready: \<open>reset_kernel\<close> tears the controller down and raises, \<open>/reset\<close>
  answers 500, and the key stays registered with a dead kernel, stopped channels and a
  cleared readiness flag. (\<open>get_session\<close> removes the session when its own restart
  fails.)
\<close>

theorem reset_failure_leaves_session_registered:
  "fst (reset_session 10 ''s1'' broken_restart)
     = Inl (HTTPException 500 (Fmt (''Failed to reset session '' @ quoted ''s1'' @ '': '')
         (RuntimeError (Fmt ''Failed to reset kernel: '' (OtherError ''cannot start kernel'')))))
   \<and> (case map_of (snd (reset_session 10 ''s1'' broken_restart)) ''s1'' of
         None \<Rightarrow> False
       | Some s \<Rightarrow> \<not> alive (kernel (controller s)) \<and> \<not> channels (kernel (controller s))
           \<and> \<not> kernel_ready (controller s) \<and> \<not> notebook_exists (controller s))"
  by (simp add: reset_session_def broken_restart_def get_session_def Let_def ready_controller_def
        idle_kernel_def reset_kernel_def restart_kernel_def cleanup_def reset_handler_def)

lemma get_session_failure_unregisters:
  "get_session t cid reg = (Inl e, reg1) \<Longrightarrow> map_of reg1 cid = None"
  by (auto simp: get_session_def Let_def delete_conv' split: option.splits if_splits prod.splits sum.splits)

lemma reset_kernel_restarted:
  "reset_kernel (controller_of [Arrive 1000 missing_pandas])
     = (None, with_iopub (submitted ''1+1'' restarted) [Arrive 800 missing_pandas])"
  by (simp add: reset_kernel_def restart_kernel_def Let_def wait_for_kernel_ready.simps execute_def
        drain_until_idle_None get_iopub_msg_def clear_output_queue_def clear_queue_None
        controller_of_def with_iopub_def submitted_def restarted_def ready_controller_def
        idle_kernel_def)

lemma restarted_simps [simp]:
  "kernel_ready restarted" "alive (kernel restarted)" "executed (kernel restarted) = []"
  by (simp_all add: restarted_def ready_controller_def idle_kernel_def)

lemma bootstrap_after_reset:
  "execute_code setup_code_manual_reset (with_iopub (submitted ''1+1'' restarted) [Arrive 800 missing_pandas])
     = (Inl (internal_error (HTTPException 400
            (ErrorDetail ''ModuleNotFoundError'' ''No module named pandas'' []))),
        with_iopub (submitted setup_code_manual_reset (submitted ''1+1'' restarted)) [])"
  by (simp add: execute_code_ready submit_eq clear_step loop_step classify_def missing_pandas_def)

lemma get_bootstrap_fails:
  "get_session 10 ''s1'' bootstrap_fails
     = (Inr \<lparr>controller = controller_of [Arrive 1000 missing_pandas], created_at = 0, last_activity = 10\<rparr>,
        [(''s1'', \<lparr>controller = controller_of [Arrive 1000 missing_pandas], created_at = 0, last_activity = 10\<rparr>)])"
  by (simp add: get_session_def bootstrap_fails_def Let_def controller_of_def)

text \<open>
  Claim C3 as stated fails on \<open>/reset\<close>: the kernel of \<open>s1\<close> restarts, the setup
  code then meets an error of the interpreter, \<open>/reset\<close> answers 500 and \<open>s1\<close> stays
  registered on the restarted kernel, which has run the probe and the failed setup
  code only.
\<close>

theorem manual_reset_keeps_uninitialised_session:
  "fst (reset_session 10 ''s1'' bootstrap_fails)
     = Inl (HTTPException 500 (Fmt ''Kernel reset, but failed to re-initialize environment: ''
         (HTTPException 500 (Fmt ''Internal error processing kernel output: ''
            (HTTPException 400 (ErrorDetail ''ModuleNotFoundError'' ''No module named pandas'' []))))))
   \<and> map_of (snd (reset_session 10 ''s1'' bootstrap_fails)) ''s1''
       = Some \<lparr>controller = with_iopub (submitted setup_code_manual_reset (submitted ''1+1'' restarted)) [],
               created_at = 0, last_activity = 10\<rparr>
   \<and> executed (kernel (with_iopub (submitted setup_code_manual_reset (submitted ''1+1'' restarted)) []))
       = [''1+1'', setup_code_manual_reset]"
  by (simp add: reset_session_def get_bootstrap_fails reset_kernel_restarted bootstrap_after_reset
        internal_error_def)

text \<open>
  Claim C3, as the code has it. When \<open>_create_session\<close> fails, the key is not
  registered afterwards; when \<open>get_session\<close> fails, which for a registered key is a
  failed restart or a failed setup after it, the key is not registered afterwards; and
  when \<open>/reset\<close> restarts the kernel and the setup code then fails, the answer is a
  500 and the session stays registered.
\<close>

theorem failed_creation_or_recovery_removes_session:
  "(create_session sp t cid reg = (Inl e, reg1) \<longrightarrow> map_of reg1 cid = None)
   \<and> (get_session t cid reg = (Inl e, reg1) \<longrightarrow> map_of reg1 cid = None)
   \<and> (get_session t cid reg = (Inr si, reg2) \<and> reset_kernel (controller si) = (None, c1)
        \<and> execute_code setup_code_manual_reset c1 = (Inl x, c2) \<longrightarrow>
        reset_session t cid reg
          = (Inl (HTTPException 500 (Fmt ''Kernel reset, but failed to re-initialize environment: '' x)),
             AList.update cid (si\<lparr>controller := c2\<rparr>) reg2)
        \<and> map_of (snd (reset_session t cid reg)) cid = Some (si\<lparr>controller := c2\<rparr>))"
  by (auto simp: reset_session_def update_conv'
        dest: create_session_failure get_session_failure_unregisters)

lemma failed_spawn:
  "create_session (Inl no_kernel) 10 ''s1'' []
     = (Inl (HTTPException 500 (Fmt ''Failed to create session: '' no_kernel)), [])"
  by (simp add: create_session_def Let_def create_notebook_def)

lemma failed_recovery:
  "get_session 10 ''s1'' dead_registry
     = (Inl (HTTPException 500 (Text (''Kernel for session '' @ quoted ''s1''
          @ '' died and could not be reset. Please start a new session.''))), [])"
  by (simp add: get_session_def dead_registry_def Let_def reset_and_setup_def reset_kernel_def
        restart_kernel_def ready_controller_def idle_kernel_def)

text \<open>
  Claim C3 at concrete inputs: a kernel that cannot be started, a dead kernel whose
  restart raises, and a reset whose setup code fails.
\<close>

theorem failed_creation_or_recovery_removes_session_witness:
  "create_session (Inl no_kernel) 10 ''s1'' []
     = (Inl (HTTPException 500 (Fmt ''Failed to create session: '' no_kernel)), [])
   \<and> map_of ([] :: registry) ''s1'' = None
   \<and> fst (get_session 10 ''s1'' dead_registry)
       = Inl (HTTPException 500 (Text (''Kernel for session '' @ quoted ''s1''
          @ '' died and could not be reset. Please start a new session.'')))
   \<and> map_of (snd (get_session 10 ''s1'' dead_registry)) ''s1'' = None
   \<and> map_of (snd (reset_session 10 ''s1'' bootstrap_fails)) ''s1''
       = Some \<lparr>controller = with_iopub (submitted setup_code_manual_reset (submitted ''1+1'' restarted)) [],
               created_at = 0, last_activity = 10\<rparr>"
proof -
  note rm = failed_creation_or_recovery_removes_session
  have a1: "map_of ([] :: registry) ''s1'' = None"
    using rm [where sp = "Inl no_kernel" and t = 10 and cid = "''s1''" and reg = "[]"
        and ?reg1.0 = "[]", THEN conjunct1, THEN mp, OF failed_spawn] .
  have a2: "map_of (snd (get_session 10 ''s1'' dead_registry)) ''s1'' = None"
    using rm [where t = 10 and cid = "''s1''" and reg = dead_registry and ?reg1.0 = "[]",
        THEN conjunct2, THEN conjunct1, THEN mp, OF failed_recovery]
    by (simp add: failed_recovery)
  have hyp: "get_session 10 ''s1'' bootstrap_fails
        = (Inr \<lparr>controller = controller_of [Arrive 1000 missing_pandas], created_at = 0, last_activity = 10\<rparr>,
           [(''s1'', \<lparr>controller = controller_of [Arrive 1000 missing_pandas], created_at = 0, last_activity = 10\<rparr>)])
      \<and> reset_kernel (controller \<lparr>controller = controller_of [Arrive 1000 missing_pandas],
             created_at = 0, last_activity = 10\<rparr>)
        = (None, with_iopub (submitted ''1+1'' restarted) [Arrive 800 missing_pandas])
      \<and> execute_code setup_code_manual_reset (with_iopub (submitted ''1+1'' restarted) [Arrive 800 missing_pandas])
        = (Inl (internal_error (HTTPException 400
            (ErrorDetail ''ModuleNotFoundError'' ''No module named pandas'' []))),
           with_iopub (submitted setup_code_manual_reset (submitted ''1+1'' restarted)) [])"
    using get_bootstrap_fails reset_kernel_restarted bootstrap_after_reset by simp
  have a3: "map_of (snd (reset_session 10 ''s1'' bootstrap_fails)) ''s1''
       = Some \<lparr>controller = with_iopub (submitted setup_code_manual_reset (submitted ''1+1'' restarted)) [],
               created_at = 0, last_activity = 10\<rparr>"
    using rm [THEN conjunct2, THEN conjunct2, THEN mp, OF hyp, THEN conjunct2] by simp
  from failed_spawn a1 failed_recovery a2 a3 show ?thesis by (intro conjI) simp_all
qed

end
